theory Spec2Isabelle
  imports Complex_Main "HOL-Library.Log_Nat"
begin

section \<open>Python and tensor-library values\<close>

text \<open>
  The notebook \<^verbatim>\<open>transformer_scratch.ipynb\<close> defines three \<^verbatim>\<open>torch.nn.Module\<close>
  classes: \<^verbatim>\<open>Attention\<close>, \<^verbatim>\<open>MultiHeadAttention\<close> and
  \<^verbatim>\<open>FullyConnectedFeedForwardNetwork\<close>. Every exception the code can raise is a value
  of \<open>py_error\<close>; a function that can raise returns \<open>py_error + 'a\<close>.

  \<^item> \<open>ZeroDivisionError\<close>: raised by Python's \<^verbatim>\<open>/\<close> on integers;
  \<^item> \<open>OverflowError\<close>: raised by \<^verbatim>\<open>/\<close> for a quotient beyond the floats, and by list
    repetition for a count that is not a machine index;
  \<^item> \<open>MemoryError\<close>: raised by list repetition for a list that cannot be allocated;
  \<^item> \<open>AssertionError\<close>: the \<^verbatim>\<open>assert\<close> of \<^verbatim>\<open>MultiHeadAttention.__init__\<close>;
  \<^item> \<open>ValueError\<close>: raised by \<^verbatim>\<open>torch.nn.Dropout\<close> for a probability outside [0, 1];
  \<^item> \<open>TypeError\<close>: raised by the tensor library for a size that is not a 64-bit integer;
  \<^item> \<open>RuntimeError\<close>: raised by the tensor library, with the cause kept apart.
\<close>

datatype torch_error = NegativeDimension | AllocationFailed | ShapeMismatch | EmptyTensorList

datatype py_error =
  ZeroDivisionError | OverflowError | MemoryError | AssertionError | ValueError | TypeError
  | RuntimeError torch_error

subsection \<open>Integer true division and \<^verbatim>\<open>int()\<close>\<close>

text \<open>
  \<^verbatim>\<open>int(d_model/n_heads)\<close>: on two Python integers \<^verbatim>\<open>/\<close> is true division. It
  raises \<^verbatim>\<open>ZeroDivisionError\<close> for a zero divisor, returns the binary64 number nearest
  to the exact quotient (ties to even), and raises \<^verbatim>\<open>OverflowError\<close> when that is
  beyond the binary64 range. A finite float is modelled by the real number it denotes.
  \<^verbatim>\<open>int()\<close> truncates towards zero.
\<close>

definition pow2 :: "int \<Rightarrow> real" where
  "pow2 k = (if 0 \<le> k then 2 ^ nat k else 1 / 2 ^ nat (- k))"

definition ilog2_quot :: "int \<Rightarrow> int \<Rightarrow> int" where
  \<comment> \<open>for \<open>0 < a\<close> and \<open>0 < b\<close>: the \<open>e\<close> with \<open>2 ^ e \<le> a / b < 2 ^ (e + 1)\<close>\<close>
  "ilog2_quot a b =
     (let d = bitlen a - bitlen b
      in if of_int b * pow2 d \<le> of_int a then d else d - 1)"

definition round_half_even :: "real \<Rightarrow> int" where
  "round_half_even r =
     (let f = \<lfloor>r\<rfloor>; t = r - of_int f
      in if t < 1 / 2 then f else if 1 / 2 < t then f + 1
         else if even f then f else f + 1)"

definition round_binary64 :: "int \<Rightarrow> int \<Rightarrow> real" where
  \<comment> \<open>the quotient \<open>a / b\<close> to 53 significant bits; the last place is never below
      \<open>2 ^ - 1074\<close> (subnormal numbers)\<close>
  "round_binary64 a b =
     (if a = 0 then 0
      else let p = max (ilog2_quot \<bar>a\<bar> \<bar>b\<bar> - 52) (- 1074)
           in of_int (sgn a * sgn b *
                round_half_even (of_int \<bar>a\<bar> / (of_int \<bar>b\<bar> * pow2 p))) * pow2 p)"

definition py_truediv :: "int \<Rightarrow> int \<Rightarrow> py_error + real" where
  "py_truediv a b =
     (if b = 0 then Inl ZeroDivisionError
      else let r = round_binary64 a b
           in if 2 ^ 1024 \<le> \<bar>r\<bar> then Inl OverflowError else Inr r)"

definition py_int :: "real \<Rightarrow> int" where
  "py_int r = (if 0 \<le> r then \<lfloor>r\<rfloor> else \<lceil>r\<rceil>)"

subsection \<open>Parameter storage\<close>

text \<open>
  A \<^verbatim>\<open>torch.nn.Parameter\<close> is a mutable tensor with an identity: two modules that hold
  the same parameter object see each other's updates. The store maps the address of a
  parameter to its entries; \<open>fresh\<close> is the next unused address. A weight of shape
  \<open>(out_features, in_features)\<close> is read as \<open>cells st a o i\<close>, a bias of shape
  \<open>(out_features)\<close> as \<open>cells st a 0 o\<close>. The shapes are kept by the owning module.
  The initial entries are drawn from the library's random generator, which the model takes
  as the argument \<open>rng\<close>, indexed by the address being initialised.

  Memory. A size or a count handed to the library or to a list is a signed 64-bit
  integer (\<open>int64\<close>). Whether a block can be allocated depends on the machine and on
  what it holds already, which the program does not control: like the random draws, the
  answers of the allocator are an input of the model. \<open>grants st k n\<close> is the answer to
  the request for the parameter tensor of address \<open>k\<close>, of \<open>n\<close> floats, and
  \<open>list_grants st n\<close> the answer to the request for a list of \<open>n\<close> references. Two
  things do not depend on the answers. A block whose size in bytes is not below
  \<open>2 ^ 63\<close> is never granted. A block of at most \<open>2 ^ 20\<close> elements is always granted:
  the notebook's own cells build parameters of \<open>512 * 2048 = 2 ^ 20\<close> elements, so a
  machine on which the notebook runs provides them.
\<close>

record store =
  fresh :: nat
  cells :: "nat \<Rightarrow> nat \<Rightarrow> nat \<Rightarrow> real"
  grants :: "nat \<Rightarrow> nat \<Rightarrow> bool"
  list_grants :: "nat \<Rightarrow> bool"

type_synonym generator = "nat \<Rightarrow> nat \<Rightarrow> nat \<Rightarrow> real"

definition int64 :: "int \<Rightarrow> bool" where
  "int64 n = (- (2 ^ 63) \<le> n \<and> n < 2 ^ 63)"

definition granted :: "store \<Rightarrow> nat \<Rightarrow> nat \<Rightarrow> bool" where
  \<comment> \<open>the parameter tensor of address \<open>k\<close>, of \<open>n\<close> 32-bit floats, can be allocated\<close>
  "granted st k n = (4 * n < 2 ^ 63 \<and> (n \<le> 2 ^ 20 \<or> grants st k n))"

definition list_granted :: "store \<Rightarrow> nat \<Rightarrow> bool" where
  \<comment> \<open>a list of \<open>n\<close> 8-byte references can be allocated\<close>
  "list_granted st n = (8 * n < 2 ^ 63 \<and> (n \<le> 2 ^ 20 \<or> list_grants st n))"

definition new_parameter :: "nat \<Rightarrow> generator \<Rightarrow> store \<Rightarrow> py_error + (nat \<times> store)" where
  \<comment> \<open>a new tensor of \<open>n\<close> floats at the next address, initialised from the generator\<close>
  "new_parameter n rng st =
     (if granted st (fresh st) n
      then Inr (fresh st,
                st\<lparr>fresh := Suc (fresh st), cells := (cells st)(fresh st := rng (fresh st))\<rparr>)
      else Inl (RuntimeError AllocationFailed))"

subsection \<open>\<^verbatim>\<open>torch.nn.Linear\<close>\<close>

text \<open>
  \<^verbatim>\<open>torch.nn.Linear(in_features, out_features, bias)\<close> allocates the weight with
  \<^verbatim>\<open>torch.empty((out_features, in_features))\<close>. That call reads both sizes as 64-bit
  integers and raises \<^verbatim>\<open>TypeError\<close> when one does not fit; then it raises
  \<^verbatim>\<open>RuntimeError\<close> for a negative dimension, and \<^verbatim>\<open>RuntimeError\<close> when the
  \<open>out_features * in_features\<close> floats cannot be allocated. Zero is accepted. The
  bias, when there is one, is allocated next, with \<open>out_features\<close> floats.
\<close>

record linear =
  in_features :: nat
  out_features :: nat
  weight :: nat
  bias :: "nat option"

definition Linear_init :: "int \<Rightarrow> int \<Rightarrow> bool \<Rightarrow> generator \<Rightarrow> store \<Rightarrow> py_error + (linear \<times> store)" where
  "Linear_init n_in n_out with_bias rng st =
     (if \<not> int64 n_out \<or> \<not> int64 n_in then Inl TypeError
      else if n_in < 0 \<or> n_out < 0 then Inl (RuntimeError NegativeDimension)
      else (case new_parameter (nat n_out * nat n_in) rng st of Inl e \<Rightarrow> Inl e
            | Inr (w, st1) \<Rightarrow>
                if with_bias
                then (case new_parameter (nat n_out) rng st1 of Inl e \<Rightarrow> Inl e
                      | Inr (b, st2) \<Rightarrow>
                          Inr (\<lparr>in_features = nat n_in, out_features = nat n_out,
                                weight = w, bias = Some b\<rparr>, st2))
                else Inr (\<lparr>in_features = nat n_in, out_features = nat n_out,
                            weight = w, bias = None\<rparr>, st1)))"

section \<open>Construction of the modules\<close>

subsection \<open>\<^verbatim>\<open>Attention.__init__\<close>\<close>

record attention =
  weightQ :: linear
  weightK :: linear
  weightV :: linear

definition Attention_init :: "int \<Rightarrow> int \<Rightarrow> generator \<Rightarrow> store \<Rightarrow> py_error + (attention \<times> store)" where
  "Attention_init dm dk rng st =
     (case Linear_init dm dk False rng st of Inl e \<Rightarrow> Inl e
      | Inr (q, st1) \<Rightarrow>
     (case Linear_init dm dk False rng st1 of Inl e \<Rightarrow> Inl e
      | Inr (k, st2) \<Rightarrow>
     (case Linear_init dm dk False rng st2 of Inl e \<Rightarrow> Inl e
      | Inr (v, st3) \<Rightarrow> Inr (\<lparr>weightQ = q, weightK = k, weightV = v\<rparr>, st3))))"

subsection \<open>\<^verbatim>\<open>MultiHeadAttention.__init__\<close>\<close>

text \<open>
  \<^verbatim>\<open>[Attention(self.d_model, self.d_k)] * n_heads\<close> calls the constructor once and
  repeats the reference: every position of the list holds the one head object, hence the
  one set of parameter addresses. List repetition reads the count as a machine index and
  raises \<^verbatim>\<open>OverflowError\<close> when it does not fit; a count that is not positive gives
  the empty list; \<^verbatim>\<open>MemoryError\<close> is raised when the list of references cannot be
  allocated.
\<close>

definition list_repeat :: "store \<Rightarrow> 'a \<Rightarrow> int \<Rightarrow> py_error + 'a list" where
  "list_repeat st x n =
     (if \<not> int64 n then Inl OverflowError
      else if n \<le> 0 then Inr []
      else if list_granted st (nat n) then Inr (replicate (nat n) x)
      else Inl MemoryError)"

record multi_head_attention =
  d_k :: int
  d_model :: int
  heads :: "attention list"
  out_lin_layer :: linear

definition MultiHeadAttention_init ::
  "int \<Rightarrow> int \<Rightarrow> generator \<Rightarrow> store \<Rightarrow> py_error + (multi_head_attention \<times> store)" where
  "MultiHeadAttention_init dm n_heads rng st =
     (case py_truediv dm n_heads of Inl e \<Rightarrow> Inl e
      | Inr quot \<Rightarrow>
          let dk = py_int quot
          in if dk * n_heads \<noteq> dm then Inl AssertionError
             else (case Attention_init dm dk rng st of Inl e \<Rightarrow> Inl e
                   | Inr (h, st1) \<Rightarrow>
                  (case list_repeat st1 h n_heads of Inl e \<Rightarrow> Inl e
                   | Inr hs \<Rightarrow>
                  (case Linear_init dm dm True rng st1 of Inl e \<Rightarrow> Inl e
                   | Inr (ol, st2) \<Rightarrow>
                       Inr (\<lparr>d_k = dk, d_model = dm, heads = hs,
                             out_lin_layer = ol\<rparr>, st2)))))"

subsection \<open>\<^verbatim>\<open>FullyConnectedFeedForwardNetwork.__init__\<close>\<close>

text \<open>
  The arguments of \<^verbatim>\<open>torch.nn.Sequential\<close> are evaluated from left to right: the first
  \<^verbatim>\<open>Linear\<close>, \<^verbatim>\<open>ReLU()\<close> (no argument, cannot fail), the second \<^verbatim>\<open>Linear\<close>, and
  last \<^verbatim>\<open>torch.nn.Dropout(dropout_prob)\<close>, whose constructor raises \<^verbatim>\<open>ValueError\<close>
  when \<^verbatim>\<open>p < 0 or p > 1\<close>. A new module is in training mode.
  \<open>FullyConnectedFeedForwardNetwork_layers\<close> is the evaluation of the first three
  arguments: it returns the two linear layers and the store that holds their parameters.
\<close>

record feed_forward =
  lin1 :: linear
  lin2 :: linear
  dropout_p :: real
  training :: bool

definition FullyConnectedFeedForwardNetwork_layers ::
  "int \<Rightarrow> int \<Rightarrow> generator \<Rightarrow> store \<Rightarrow> py_error + (linear \<times> linear \<times> store)" where
  "FullyConnectedFeedForwardNetwork_layers dm d_hidden rng st =
     (case Linear_init dm d_hidden True rng st of Inl e \<Rightarrow> Inl e
      | Inr (l1, st1) \<Rightarrow>
     (case Linear_init d_hidden dm True rng st1 of Inl e \<Rightarrow> Inl e
      | Inr (l2, st2) \<Rightarrow> Inr (l1, l2, st2)))"

definition FullyConnectedFeedForwardNetwork_init ::
  "int \<Rightarrow> int \<Rightarrow> real \<Rightarrow> generator \<Rightarrow> store \<Rightarrow> py_error + (feed_forward \<times> store)" where
  "FullyConnectedFeedForwardNetwork_init dm d_hidden dropout_prob rng st =
     (case FullyConnectedFeedForwardNetwork_layers dm d_hidden rng st of Inl e \<Rightarrow> Inl e
      | Inr (l1, l2, st2) \<Rightarrow>
          if dropout_prob < 0 \<or> 1 < dropout_prob then Inl ValueError
          else Inr (\<lparr>lin1 = l1, lin2 = l2, dropout_p = dropout_prob, training = True\<rparr>, st2))"

definition eval_mode :: "feed_forward \<Rightarrow> feed_forward" where
  \<comment> \<open>\<^verbatim>\<open>Module.eval()\<close>\<close>
  "eval_mode f = f\<lparr>training := False\<rparr>"

section \<open>Tensors and the operations of the tensor library\<close>

text \<open>
  Every tensor the three \<^verbatim>\<open>forward\<close> methods handle has three axes
  \<open>(batch, seq_len, features)\<close>. A tensor carries its shape, which the library's checks
  read, and its entries \<open>el t b i c\<close>, meaningful for indices below the shape.

  Entries are real numbers and arithmetic is exact. The library computes with 32-bit
  floats: it rounds every result, a result too large becomes \<open>inf\<close>, and \<open>inf - inf\<close>
  and \<open>0 / 0\<close> are \<open>nan\<close>. None of this is in the model. The model therefore says which
  operations are applied, to which operands and in which order, and what shapes result;
  it does not say what float the library returns, and no numeric property of the floats
  (a tolerance, a sign, the absence of \<open>nan\<close>) can be read off it. In particular a
  division by \<open>math.sqrt(0)\<close> is \<open>x / 0 = 0\<close> in HOL where the library gives \<open>inf\<close>
  or \<open>nan\<close>; the theorem on the entries of \<^verbatim>\<open>Attention.forward\<close> takes \<open>0 < d_k\<close>.
\<close>

record tensor =
  dim0 :: nat
  dim1 :: nat
  dim2 :: nat
  el :: "nat \<Rightarrow> nat \<Rightarrow> nat \<Rightarrow> real"

definition Linear_forward :: "store \<Rightarrow> linear \<Rightarrow> tensor \<Rightarrow> py_error + tensor" where
  \<comment> \<open>\<^verbatim>\<open>F.linear(x, weight, bias)\<close>: \<open>x\<close> times the transposed weight, plus the bias\<close>
  "Linear_forward st l x =
     (if dim2 x \<noteq> in_features l then Inl (RuntimeError ShapeMismatch)
      else Inr \<lparr>dim0 = dim0 x, dim1 = dim1 x, dim2 = out_features l,
                el = (\<lambda>b i c. (\<Sum>m<in_features l. el x b i m * cells st (weight l) c m)
                          + (case bias l of None \<Rightarrow> 0 | Some a \<Rightarrow> cells st a 0 c))\<rparr>)"

definition torch_transpose_1_2 :: "tensor \<Rightarrow> tensor" where
  "torch_transpose_1_2 t =
     \<lparr>dim0 = dim0 t, dim1 = dim2 t, dim2 = dim1 t, el = (\<lambda>b i j. el t b j i)\<rparr>"

definition torch_bmm :: "tensor \<Rightarrow> tensor \<Rightarrow> py_error + tensor" where
  "torch_bmm x y =
     (if dim0 x \<noteq> dim0 y \<or> dim2 x \<noteq> dim1 y then Inl (RuntimeError ShapeMismatch)
      else Inr \<lparr>dim0 = dim0 x, dim1 = dim1 x, dim2 = dim2 y,
                el = (\<lambda>b i j. \<Sum>k<dim2 x. el x b i k * el y b k j)\<rparr>)"

definition math_sqrt :: "nat \<Rightarrow> real" where
  "math_sqrt n = sqrt (real n)"

definition tensor_div :: "tensor \<Rightarrow> real \<Rightarrow> tensor" where
  \<comment> \<open>a tensor divided by a Python float; exact, and \<open>x / 0 = 0\<close> where the library
      gives \<open>inf\<close> or \<open>nan\<close>\<close>
  "tensor_div t r = t\<lparr>el := (\<lambda>b i j. el t b i j / r)\<rparr>"

definition softmax_last :: "tensor \<Rightarrow> tensor" where
  \<comment> \<open>\<^verbatim>\<open>torch.nn.functional.softmax(t, dim=-1)\<close>, over the reals: no rounding, and no
      \<open>nan\<close> row for a score that the floats cannot hold\<close>
  "softmax_last t =
     t\<lparr>el := (\<lambda>b i j. exp (el t b i j) / (\<Sum>k<dim2 t. exp (el t b i k)))\<rparr>"

fun cat_el :: "tensor list \<Rightarrow> nat \<Rightarrow> nat \<Rightarrow> nat \<Rightarrow> real" where
  "cat_el [] b i c = 0"
| "cat_el (t # ts) b i c = (if c < dim2 t then el t b i c else cat_el ts b i (c - dim2 t))"

definition torch_cat_last :: "tensor list \<Rightarrow> py_error + tensor" where
  \<comment> \<open>\<^verbatim>\<open>torch.cat(ts, dim=-1)\<close>: the list must not be empty, the other axes must agree\<close>
  "torch_cat_last ts =
     (case ts of [] \<Rightarrow> Inl (RuntimeError EmptyTensorList)
      | t # rest \<Rightarrow>
          if list_all (\<lambda>u. dim0 u = dim0 t \<and> dim1 u = dim1 t) rest
          then Inr \<lparr>dim0 = dim0 t, dim1 = dim1 t, dim2 = sum_list (map dim2 ts),
                    el = cat_el ts\<rparr>
          else Inl (RuntimeError ShapeMismatch))"

definition torch_relu :: "tensor \<Rightarrow> tensor" where
  "torch_relu t = t\<lparr>el := (\<lambda>b i j. max 0 (el t b i j))\<rparr>"

text \<open>
  \<^verbatim>\<open>Dropout\<close>: outside training the input is returned as it is. In training each entry
  is kept or zeroed by a random draw, here the argument \<open>keep\<close>, and a kept entry is
  divided by \<open>1 - p\<close>; for \<open>p = 1\<close> the library returns zeros.
\<close>

definition torch_dropout :: "real \<Rightarrow> bool \<Rightarrow> (nat \<Rightarrow> nat \<Rightarrow> nat \<Rightarrow> bool) \<Rightarrow> tensor \<Rightarrow> tensor" where
  "torch_dropout p train keep t =
     (if train
      then t\<lparr>el := (\<lambda>b i j. if p = 1 then 0
                            else if keep b i j then el t b i j / (1 - p) else 0)\<rparr>
      else t)"

section \<open>The forward methods\<close>

subsection \<open>\<^verbatim>\<open>Attention.forward\<close>\<close>

text \<open>
  \<open>Attention_inter\<close> is the body of \<^verbatim>\<open>forward\<close> up to the local variable
  \<^verbatim>\<open>inter\<close>, the attention weights; it returns \<^verbatim>\<open>inter\<close> and \<^verbatim>\<open>value\<close>, and
  \<open>Attention_forward\<close> finishes with \<^verbatim>\<open>torch.bmm(inter, value)\<close>.
\<close>

definition Attention_inter :: "store \<Rightarrow> attention \<Rightarrow> tensor \<Rightarrow> py_error + (tensor \<times> tensor)" where
  "Attention_inter st a incoming =
     (case Linear_forward st (weightQ a) incoming of Inl e \<Rightarrow> Inl e
      | Inr query \<Rightarrow>
     (case Linear_forward st (weightK a) incoming of Inl e \<Rightarrow> Inl e
      | Inr key \<Rightarrow>
     (case Linear_forward st (weightV a) incoming of Inl e \<Rightarrow> Inl e
      | Inr val \<Rightarrow>
     (case torch_bmm query (torch_transpose_1_2 key) of Inl e \<Rightarrow> Inl e
      | Inr scores \<Rightarrow>
          Inr (softmax_last (tensor_div scores (math_sqrt (dim2 query))), val)))))"

definition Attention_forward :: "store \<Rightarrow> attention \<Rightarrow> tensor \<Rightarrow> py_error + tensor" where
  "Attention_forward st a incoming =
     (case Attention_inter st a incoming of Inl e \<Rightarrow> Inl e
      | Inr (inter', val) \<Rightarrow> torch_bmm inter' val)"

subsection \<open>\<^verbatim>\<open>MultiHeadAttention.forward\<close>\<close>

text \<open>The list comprehension calls the heads in list order; the first error ends it.\<close>

fun forward_heads :: "store \<Rightarrow> attention list \<Rightarrow> tensor \<Rightarrow> py_error + tensor list" where
  "forward_heads st [] incoming = Inr []"
| "forward_heads st (h # hs) incoming =
     (case Attention_forward st h incoming of Inl e \<Rightarrow> Inl e
      | Inr y \<Rightarrow>
     (case forward_heads st hs incoming of Inl e \<Rightarrow> Inl e
      | Inr ys \<Rightarrow> Inr (y # ys)))"

definition MultiHeadAttention_forward ::
  "store \<Rightarrow> multi_head_attention \<Rightarrow> tensor \<Rightarrow> py_error + tensor" where
  "MultiHeadAttention_forward st m incoming =
     (case forward_heads st (heads m) incoming of Inl e \<Rightarrow> Inl e
      | Inr outs \<Rightarrow>
     (case torch_cat_last outs of Inl e \<Rightarrow> Inl e
      | Inr concat_out \<Rightarrow> Linear_forward st (out_lin_layer m) concat_out))"

subsection \<open>\<^verbatim>\<open>FullyConnectedFeedForwardNetwork.forward\<close>\<close>

definition FullyConnectedFeedForwardNetwork_forward ::
  "store \<Rightarrow> feed_forward \<Rightarrow> (nat \<Rightarrow> nat \<Rightarrow> nat \<Rightarrow> bool) \<Rightarrow> tensor \<Rightarrow> py_error + tensor" where
  "FullyConnectedFeedForwardNetwork_forward st f keep incoming =
     (case Linear_forward st (lin1 f) incoming of Inl e \<Rightarrow> Inl e
      | Inr h \<Rightarrow>
     (case Linear_forward st (lin2 f) (torch_relu h) of Inl e \<Rightarrow> Inl e
      | Inr y \<Rightarrow> Inr (torch_dropout (dropout_p f) (training f) keep y)))"

section \<open>The specification's formulas\<close>

text \<open>
  The specification writes a projection as a matrix \<open>W\<close> of shape \<open>(in_dim, out_dim)\<close>
  applied as \<open>input \<cdot> W\<close>; the library stores the transpose. \<open>spec_W\<close> and \<open>spec_b\<close>
  read the parameters of a \<open>linear\<close> in the specification's layout. The definitions
  \<open>spec_\<dots>\<close> follow sections 4.1 and 4.3 of the specification, entry by entry.
\<close>

definition spec_W :: "store \<Rightarrow> linear \<Rightarrow> nat \<Rightarrow> nat \<Rightarrow> real" where
  "spec_W st l = (\<lambda>i c. cells st (weight l) c i)"

definition spec_b :: "store \<Rightarrow> linear \<Rightarrow> nat \<Rightarrow> real" where
  "spec_b st l = (\<lambda>c. cells st (the (bias l)) 0 c)"

definition spec_project :: "(nat \<Rightarrow> nat \<Rightarrow> real) \<Rightarrow> tensor \<Rightarrow> nat \<Rightarrow> nat \<Rightarrow> nat \<Rightarrow> real" where
  \<comment> \<open>\<open>input \<cdot> W\<close>: contraction over the trailing axis of the input\<close>
  "spec_project W x b i c = (\<Sum>m<dim2 x. el x b i m * W m c)"

definition spec_scores ::
  "(nat \<Rightarrow> nat \<Rightarrow> real) \<Rightarrow> (nat \<Rightarrow> nat \<Rightarrow> real) \<Rightarrow> nat \<Rightarrow> tensor \<Rightarrow> nat \<Rightarrow> nat \<Rightarrow> nat \<Rightarrow> real" where
  \<comment> \<open>\<open>query \<cdot> key\<^sup>T\<close>, scaled by \<open>1 / sqrt head_dim\<close>\<close>
  "spec_scores Wq Wk head_dim x b i j =
     (\<Sum>c<head_dim. spec_project Wq x b i c * spec_project Wk x b j c)
       * (1 / sqrt (real head_dim))"

definition spec_weights ::
  "(nat \<Rightarrow> nat \<Rightarrow> real) \<Rightarrow> (nat \<Rightarrow> nat \<Rightarrow> real) \<Rightarrow> nat \<Rightarrow> tensor \<Rightarrow> nat \<Rightarrow> nat \<Rightarrow> nat \<Rightarrow> real" where
  \<comment> \<open>softmax over the keys \<open>j\<close> of one query \<open>i\<close>\<close>
  "spec_weights Wq Wk head_dim x b i j =
     exp (spec_scores Wq Wk head_dim x b i j)
       / (\<Sum>k<dim1 x. exp (spec_scores Wq Wk head_dim x b i k))"

definition spec_attention ::
  "(nat \<Rightarrow> nat \<Rightarrow> real) \<Rightarrow> (nat \<Rightarrow> nat \<Rightarrow> real) \<Rightarrow> (nat \<Rightarrow> nat \<Rightarrow> real) \<Rightarrow> nat \<Rightarrow> tensor
     \<Rightarrow> nat \<Rightarrow> nat \<Rightarrow> nat \<Rightarrow> real" where
  \<comment> \<open>normalised scores times value\<close>
  "spec_attention Wq Wk Wv head_dim x b i c =
     (\<Sum>j<dim1 x. spec_weights Wq Wk head_dim x b i j * spec_project Wv x b j c)"

definition spec_hidden ::
  "(nat \<Rightarrow> nat \<Rightarrow> real) \<Rightarrow> (nat \<Rightarrow> real) \<Rightarrow> tensor \<Rightarrow> nat \<Rightarrow> nat \<Rightarrow> nat \<Rightarrow> real" where
  \<comment> \<open>\<open>hidden = ReLU(input \<cdot> W1 + b1)\<close>\<close>
  "spec_hidden W1 b1 x b i h = max 0 (spec_project W1 x b i h + b1 h)"

definition spec_ffn_linear ::
  "(nat \<Rightarrow> nat \<Rightarrow> real) \<Rightarrow> (nat \<Rightarrow> real) \<Rightarrow> (nat \<Rightarrow> nat \<Rightarrow> real) \<Rightarrow> (nat \<Rightarrow> real) \<Rightarrow> nat
     \<Rightarrow> tensor \<Rightarrow> nat \<Rightarrow> nat \<Rightarrow> nat \<Rightarrow> real" where
  \<comment> \<open>\<open>hidden \<cdot> W2 + b2\<close>, the argument of the dropout\<close>
  "spec_ffn_linear W1 b1 W2 b2 hidden_dim x b i c =
     (\<Sum>h<hidden_dim. spec_hidden W1 b1 x b i h * W2 h c) + b2 c"

definition spec_dropout :: "real \<Rightarrow> bool \<Rightarrow> bool \<Rightarrow> real \<Rightarrow> real" where
  \<comment> \<open>identity in evaluation mode; in training an entry is zeroed or rescaled\<close>
  "spec_dropout p train kept v =
     (if \<not> train then v else if kept \<and> p \<noteq> 1 then v / (1 - p) else 0)"

section \<open>Shapes of constructed modules\<close>

text \<open>
  What \<^verbatim>\<open>Attention.__init__\<close> fixes in a head, whatever its parameters hold later:
  three projections from \<open>n\<close> to \<open>k\<close> features, none with a bias.
\<close>

definition head_shape :: "nat \<Rightarrow> nat \<Rightarrow> attention \<Rightarrow> bool" where
  "head_shape n k a =
     (in_features (weightQ a) = n \<and> out_features (weightQ a) = k \<and> bias (weightQ a) = None \<and>
      in_features (weightK a) = n \<and> out_features (weightK a) = k \<and> bias (weightK a) = None \<and>
      in_features (weightV a) = n \<and> out_features (weightV a) = k \<and> bias (weightV a) = None)"

section \<open>Concrete runs\<close>

text \<open>
  A first store, whose allocator grants no more than it must, a generator and an input,
  for concrete runs.
\<close>

definition store0 :: store where
  "store0 = \<lparr>fresh = 0, cells = (\<lambda>a i j. 0), grants = (\<lambda>k n. False),
              list_grants = (\<lambda>n. False)\<rparr>"

definition rng0 :: generator where
  "rng0 = (\<lambda>a i j. 1)"

definition ones :: "nat \<Rightarrow> nat \<Rightarrow> nat \<Rightarrow> tensor" where
  "ones n0 n1 n2 = \<lparr>dim0 = n0, dim1 = n1, dim2 = n2, el = (\<lambda>b i j. 1)\<rparr>"

text \<open>
  A run in which the softmax and the scaling matter: weights \<open>W_q = [[1, 1], [0, 1]]\<close>,
  \<open>W_k = 2 I\<close>, \<open>W_v = 3 I\<close> (rows by output feature), and the two positions
  \<open>(1, 0)\<close> and \<open>(1, 1)\<close>.
\<close>

definition rng1 :: generator where
  "rng1 = (\<lambda>a i j. if a = 0 then (if i \<le> j then 1 else 0)
                   else if i = j then real a + 1 else 0)"

definition steps :: tensor where
  "steps = \<lparr>dim0 = 1, dim1 = 2, dim2 = 2, el = (\<lambda>b i j. if j \<le> i then 1 else 0)\<rparr>"

definition mha0 :: multi_head_attention where
  \<comment> \<open>\<^verbatim>\<open>multi_h = MultiHeadAttention()\<close>, the notebook's instance with the default arguments\<close>
  "mha0 = fst (projr (MultiHeadAttention_init 512 8 rng0 store0))"

definition keep_all :: "nat \<Rightarrow> nat \<Rightarrow> nat \<Rightarrow> bool" where
  "keep_all = (\<lambda>b i j. True)"

section \<open>Construction: what succeeds, what is raised\<close>

subsection \<open>Allocation and \<^verbatim>\<open>torch.nn.Linear\<close>\<close>

lemma granted_store:
  assumes "grants st' = grants st"
  shows "granted st' k n = granted st k n"
  using assms by (simp add: granted_def)

lemma granted_small:
  assumes "n \<le> 2 ^ 20"
  shows "granted st k n"
  using assms by (simp add: granted_def)

lemma new_parameter_Inr:
  assumes "new_parameter n rng st = Inr (a, st')"
  shows "a = fresh st" and "fresh st' = Suc (fresh st)"
    and "grants st' = grants st" and "list_grants st' = list_grants st"
    and "granted st (fresh st) n"
  using assms by (auto simp: new_parameter_def split: if_splits)

lemma new_parameter_succeeds:
  assumes "granted st (fresh st) n"
  shows "\<exists>st'. new_parameter n rng st = Inr (fresh st, st') \<and> fresh st' = Suc (fresh st) \<and>
           grants st' = grants st"
  using assms by (simp add: new_parameter_def)

lemma Linear_init_Inr:
  assumes "Linear_init n_in n_out wb rng st = Inr (l, st')"
  shows "0 \<le> n_in" and "0 \<le> n_out"
    and "in_features l = nat n_in" and "out_features l = nat n_out"
    and "(bias l = None) = (\<not> wb)" and "weight l = fresh st"
    and "fresh st' = (if wb then fresh st + 2 else fresh st + 1)"
    and "grants st' = grants st"
    and "n_in < 2 ^ 63" and "n_out < 2 ^ 63"
    and "granted st (fresh st) (nat n_out * nat n_in)"
    and "list_grants st' = list_grants st"
    and "wb \<longrightarrow> granted st (fresh st + 1) (nat n_out)"
proof -
  from assms have i: "int64 n_out" "int64 n_in" and nn: "\<not> (n_in < 0 \<or> n_out < 0)"
    by (auto simp: Linear_init_def split: if_splits)
  from assms i nn obtain w st1 where
    w: "new_parameter (nat n_out * nat n_in) rng st = Inr (w, st1)"
    by (auto simp: Linear_init_def split: sum.splits)
  note pw = new_parameter_Inr[OF w]
  show "0 \<le> n_in" "0 \<le> n_out" using nn by simp_all
  show "n_in < 2 ^ 63" "n_out < 2 ^ 63" using i by (simp_all add: int64_def)
  show "granted st (fresh st) (nat n_out * nat n_in)" by (rule pw(5))
  have main: "in_features l = nat n_in \<and> out_features l = nat n_out \<and>
      (bias l = None) = (\<not> wb) \<and> weight l = fresh st \<and>
      fresh st' = (if wb then fresh st + 2 else fresh st + 1) \<and>
      grants st' = grants st \<and> list_grants st' = list_grants st \<and>
      (wb \<longrightarrow> granted st (fresh st + 1) (nat n_out))"
  proof (cases wb)
    case True
    with assms i nn w obtain b where
      b: "new_parameter (nat n_out) rng st1 = Inr (b, st')" and
      l: "l = \<lparr>in_features = nat n_in, out_features = nat n_out, weight = w, bias = Some b\<rparr>"
      by (auto simp: Linear_init_def split: sum.splits)
    note pb = new_parameter_Inr[OF b]
    have "granted st (fresh st + 1) (nat n_out)"
      using pb(5) pw(2) granted_store[OF pw(3)] by simp
    then show ?thesis
      using True pw(1-4) pb(2-4) by (simp add: l)
  next
    case False
    with assms i nn w have
      l: "l = \<lparr>in_features = nat n_in, out_features = nat n_out, weight = w, bias = None\<rparr>"
      and s: "st' = st1"
      by (auto simp: Linear_init_def)
    show ?thesis
      using False pw(1-4) by (simp add: l s)
  qed
  show "in_features l = nat n_in" "out_features l = nat n_out" "(bias l = None) = (\<not> wb)"
    "weight l = fresh st" "fresh st' = (if wb then fresh st + 2 else fresh st + 1)"
    "grants st' = grants st" "list_grants st' = list_grants st"
    "wb \<longrightarrow> granted st (fresh st + 1) (nat n_out)"
    using main by simp_all
qed

lemma Linear_init_bias:
  assumes "Linear_init n_in n_out True rng st = Inr (l, st')"
  shows "bias l = Some (fresh st + 1)"
  using assms
  by (auto simp: Linear_init_def new_parameter_def split: if_splits sum.splits)

lemma Linear_init_succeeds:
  assumes "0 \<le> n_in" and "n_in < 2 ^ 63" and "0 \<le> n_out" and "n_out < 2 ^ 63"
    and "granted st (fresh st) (nat n_out * nat n_in)"
    and "wb \<longrightarrow> granted st (fresh st + 1) (nat n_out)"
  shows "\<exists>l st'. Linear_init n_in n_out wb rng st = Inr (l, st')"
proof -
  have i: "int64 n_out" "int64 n_in" using assms(1-4) by (simp_all add: int64_def)
  from new_parameter_succeeds[OF assms(5), of rng] obtain st1 where
    w: "new_parameter (nat n_out * nat n_in) rng st = Inr (fresh st, st1)" and
    f: "fresh st1 = Suc (fresh st)" and e: "grants st1 = grants st" by blast
  show ?thesis
  proof (cases wb)
    case True
    then have "granted st1 (fresh st1) (nat n_out)"
      using assms(6) granted_store[OF e] f by simp
    from new_parameter_succeeds[OF this, of rng] obtain st2 where
      "new_parameter (nat n_out) rng st1 = Inr (fresh st1, st2)" by blast
    then show ?thesis using True i assms(1,3) w by (simp add: Linear_init_def)
  next
    case False
    then show ?thesis using i assms(1,3) w by (simp add: Linear_init_def)
  qed
qed

lemma Linear_init_type_error:
  assumes "\<not> int64 n_in \<or> \<not> int64 n_out"
  shows "Linear_init n_in n_out wb rng st = Inl TypeError"
  using assms by (auto simp: Linear_init_def)

lemma Linear_init_negative:
  assumes "int64 n_in" and "int64 n_out" and "n_in < 0 \<or> n_out < 0"
  shows "Linear_init n_in n_out wb rng st = Inl (RuntimeError NegativeDimension)"
  using assms by (simp add: Linear_init_def)

lemma Linear_init_error:
  assumes "Linear_init n_in n_out wb rng st = Inl e"
  shows "e = TypeError \<or> e = RuntimeError NegativeDimension \<or> e = RuntimeError AllocationFailed"
  using assms
  by (auto simp: Linear_init_def new_parameter_def split: if_splits sum.splits)

subsection \<open>\<^verbatim>\<open>Attention.__init__\<close> and list repetition\<close>

lemma Attention_init_Inr:
  assumes "Attention_init dm dk rng st = Inr (a, st')"
  shows "0 \<le> dm" and "0 \<le> dk" and "head_shape (nat dm) (nat dk) a"
    and "weight (weightQ a) = fresh st" and "weight (weightK a) = fresh st + 1"
    and "weight (weightV a) = fresh st + 2" and "fresh st' = fresh st + 3"
    and "grants st' = grants st"
    and "dm < 2 ^ 63" and "dk < 2 ^ 63"
    and "granted st (fresh st) (nat dk * nat dm) \<and> granted st (fresh st + 1) (nat dk * nat dm) \<and>
         granted st (fresh st + 2) (nat dk * nat dm)"
    and "list_grants st' = list_grants st"
proof -
  from assms obtain q s1 k s2 v where
    q: "Linear_init dm dk False rng st = Inr (q, s1)" and
    k: "Linear_init dm dk False rng s1 = Inr (k, s2)" and
    v: "Linear_init dm dk False rng s2 = Inr (v, st')" and
    a: "a = \<lparr>weightQ = q, weightK = k, weightV = v\<rparr>"
    by (auto simp: Attention_init_def split: sum.splits)
  note fq = Linear_init_Inr[OF q] and fk = Linear_init_Inr[OF k] and fv = Linear_init_Inr[OF v]
  show "0 \<le> dm" "0 \<le> dk" using fq(1,2) by simp_all
  show "head_shape (nat dm) (nat dk) a"
    using fq(3-5) fk(3-5) fv(3-5) by (simp add: head_shape_def a)
  show "weight (weightQ a) = fresh st" using fq(6) by (simp add: a)
  show "weight (weightK a) = fresh st + 1" using fk(6) fq(7) by (simp add: a)
  show "weight (weightV a) = fresh st + 2" using fv(6) fk(7) fq(7) by (simp add: a)
  show "fresh st' = fresh st + 3" using fv(7) fk(7) fq(7) by simp
  show "grants st' = grants st" using fv(8) fk(8) fq(8) by simp
  show "list_grants st' = list_grants st" using fv(12) fk(12) fq(12) by simp
  show "dm < 2 ^ 63" "dk < 2 ^ 63" using fq(9,10) by simp_all
  have "granted st (fresh st + 1) (nat dk * nat dm)"
    using fk(11) fq(7) granted_store[OF fq(8)] by simp
  moreover have "granted st (fresh st + 2) (nat dk * nat dm)"
    using fv(11) fk(7) fq(7) fk(8) fq(8) by (simp add: granted_def)
  ultimately show "granted st (fresh st) (nat dk * nat dm) \<and>
      granted st (fresh st + 1) (nat dk * nat dm) \<and> granted st (fresh st + 2) (nat dk * nat dm)"
    using fq(11) by simp
qed

lemma Attention_init_succeeds:
  assumes "0 \<le> dm" and "dm < 2 ^ 63" and "0 \<le> dk" and "dk < 2 ^ 63"
    and "granted st (fresh st) (nat dk * nat dm)"
    and "granted st (fresh st + 1) (nat dk * nat dm)"
    and "granted st (fresh st + 2) (nat dk * nat dm)"
  shows "\<exists>a st'. Attention_init dm dk rng st = Inr (a, st')"
proof -
  obtain q s1 where q: "Linear_init dm dk False rng st = Inr (q, s1)"
    using Linear_init_succeeds[OF assms(1-5), of False rng] by auto
  note fq = Linear_init_Inr[OF q]
  have "granted s1 (fresh s1) (nat dk * nat dm)"
    using assms(6) fq(7) granted_store[OF fq(8)] by simp
  then obtain k s2 where k: "Linear_init dm dk False rng s1 = Inr (k, s2)"
    using Linear_init_succeeds[OF assms(1-4), of s1 False rng] by auto
  note fk = Linear_init_Inr[OF k]
  have "granted s2 (fresh s2) (nat dk * nat dm)"
    using assms(7) fk(7) fq(7) fk(8) fq(8) by (simp add: granted_def)
  then obtain v s3 where v: "Linear_init dm dk False rng s2 = Inr (v, s3)"
    using Linear_init_succeeds[OF assms(1-4), of s2 False rng] by auto
  show ?thesis by (simp add: Attention_init_def q k v)
qed

lemma Attention_init_small:
  assumes "0 \<le> dm" and "0 \<le> dk" and "nat dk * nat dm \<le> 2 ^ 20"
    and "dm < 2 ^ 63" and "dk < 2 ^ 63"
  shows "\<exists>a st'. Attention_init dm dk rng st = Inr (a, st')"
  using Attention_init_succeeds[OF assms(1,4,2,5)] granted_small[OF assms(3)] by blast

lemma Attention_init_error:
  assumes "Attention_init dm dk rng st = Inl e"
  shows "e = TypeError \<or> e = RuntimeError NegativeDimension \<or> e = RuntimeError AllocationFailed"
proof (cases "Linear_init dm dk False rng st")
  case (Inl e')
  with assms Linear_init_error[OF Inl] show ?thesis by (simp add: Attention_init_def)
next
  case (Inr r)
  obtain q s1 where r: "r = (q, s1)" by (cases r)
  show ?thesis
  proof (cases "Linear_init dm dk False rng s1")
    case (Inl e')
    with assms Inr r Linear_init_error[OF Inl] show ?thesis by (simp add: Attention_init_def)
  next
    case r2: (Inr r2)
    obtain k s2 where r2': "r2 = (k, s2)" by (cases r2)
    show ?thesis
    proof (cases "Linear_init dm dk False rng s2")
      case (Inl e')
      with assms Inr r r2 r2' Linear_init_error[OF Inl] show ?thesis
        by (simp add: Attention_init_def)
    next
      case r3: (Inr r3)
      obtain v s3 where "r3 = (v, s3)" by (cases r3)
      with assms Inr r r2 r2' r3 show ?thesis by (simp add: Attention_init_def)
    qed
  qed
qed

lemma Attention_init_type_error:
  assumes "\<not> int64 dm \<or> \<not> int64 dk"
  shows "Attention_init dm dk rng st = Inl TypeError"
  by (simp add: Attention_init_def Linear_init_type_error[OF assms])

lemma Attention_init_negative:
  assumes "int64 dm" and "int64 dk" and "dm < 0 \<or> dk < 0"
  shows "Attention_init dm dk rng st = Inl (RuntimeError NegativeDimension)"
  by (simp add: Attention_init_def Linear_init_negative[OF assms])

lemma list_repeat_Inr:
  assumes "list_repeat st x n = Inr xs"
  shows "xs = replicate (nat n) x"
  using assms by (auto simp: list_repeat_def split: if_splits)

lemma list_repeat_error:
  assumes "list_repeat st x n = Inl e"
  shows "e = OverflowError \<or> e = MemoryError"
  using assms by (auto simp: list_repeat_def split: if_splits)

lemma list_repeat_succeeds:
  assumes "0 < n" and "n < 2 ^ 63" and "list_granted st (nat n)"
  shows "list_repeat st x n = Inr (replicate (nat n) x)"
  using assms by (simp add: list_repeat_def int64_def)

lemma MultiHeadAttention_init_assert:
  assumes "py_truediv dm nh = Inr q"
  shows "(MultiHeadAttention_init dm nh rng st = Inl AssertionError) = (py_int q * nh \<noteq> dm)"
proof (cases "py_int q * nh = dm")
  case True
  show ?thesis
  proof (cases "Attention_init dm (py_int q) rng st")
    case (Inl e)
    then show ?thesis
      using True Attention_init_error[OF Inl]
      by (auto simp: MultiHeadAttention_init_def assms)
  next
    case (Inr r)
    obtain h s1 where r: "r = (h, s1)" by (cases r)
    note a = Inr[unfolded r]
    show ?thesis
    proof (cases "list_repeat s1 h nh")
      case (Inl e)
      then show ?thesis
        using True a list_repeat_error[OF Inl]
        by (auto simp: MultiHeadAttention_init_def assms)
    next
      case hs: (Inr hs)
      show ?thesis
      proof (cases "Linear_init dm dm True rng s1")
        case (Inl e)
        then show ?thesis
          using True a hs Linear_init_error[OF Inl]
          by (auto simp: MultiHeadAttention_init_def assms)
      next
        case (Inr r2)
        obtain ol s2 where r2: "r2 = (ol, s2)" by (cases r2)
        show ?thesis
          using True a hs Inr r2
          by (simp add: MultiHeadAttention_init_def assms)
      qed
    qed
  qed
next
  case False
  then show ?thesis by (simp add: MultiHeadAttention_init_def assms)
qed

subsection \<open>The head dimension of the default configuration\<close>

text \<open>\<^verbatim>\<open>512/8\<close> is the float \<open>64.0\<close>; \<^verbatim>\<open>512/7\<close> is the float nearest to
  \<open>73.142857\<dots>\<close>, which \<^verbatim>\<open>int()\<close> truncates to \<open>73\<close>.\<close>

lemma bitlen_512_8_7: "bitlen 512 = 10" "bitlen 8 = 4" "bitlen 7 = 3"
  by (simp_all add: compute_bitlen)

lemma round_binary64_512_8: "round_binary64 512 8 = 64"
  by (simp add: round_binary64_def ilog2_quot_def bitlen_512_8_7 pow2_def round_half_even_def)

lemma round_binary64_512_7: "round_binary64 512 7 = 2573485501354569 / 35184372088832"
  by (simp add: round_binary64_def ilog2_quot_def bitlen_512_8_7 pow2_def round_half_even_def
      Let_def)

lemma py_truediv_512_8: "py_truediv 512 8 = Inr 64"
  by (simp add: py_truediv_def round_binary64_512_8)

lemma py_truediv_512_7: "py_truediv 512 7 = Inr (2573485501354569 / 35184372088832)"
  by (simp add: py_truediv_def round_binary64_512_7)

lemma py_int_512_7: "py_int (2573485501354569 / 35184372088832) = 73"
  by (simp add: py_int_def)

lemma MultiHeadAttention_init_Inr:
  assumes "MultiHeadAttention_init dm nh rng st = Inr (m, st')"
  shows "\<exists>h. heads m = replicate (nat nh) h \<and> head_shape (nat dm) (nat (d_k m)) h"
    and "d_k m * nh = dm" and "0 \<le> dm" and "0 \<le> d_k m" and "d_model m = dm"
    and "in_features (out_lin_layer m) = nat dm" and "out_features (out_lin_layer m) = nat dm"
    and "bias (out_lin_layer m) \<noteq> None"
proof -
  from assms obtain q h s1 hs ol where
    q: "py_truediv dm nh = Inr q" and eq: "py_int q * nh = dm" and
    h: "Attention_init dm (py_int q) rng st = Inr (h, s1)" and
    hs: "list_repeat s1 h nh = Inr hs" and
    ol: "Linear_init dm dm True rng s1 = Inr (ol, st')" and
    m: "m = \<lparr>d_k = py_int q, d_model = dm, heads = hs, out_lin_layer = ol\<rparr>"
    by (auto simp: MultiHeadAttention_init_def Let_def split: sum.splits if_splits)
  show "\<exists>h. heads m = replicate (nat nh) h \<and> head_shape (nat dm) (nat (d_k m)) h"
    using Attention_init_Inr(3)[OF h] list_repeat_Inr[OF hs] by (auto simp: m)
  show "d_k m * nh = dm" using eq by (simp add: m)
  show "0 \<le> dm" using Attention_init_Inr(1)[OF h] .
  show "0 \<le> d_k m" using Attention_init_Inr(2)[OF h] by (simp add: m)
  show "d_model m = dm" by (simp add: m)
  show "in_features (out_lin_layer m) = nat dm" using Linear_init_Inr(3)[OF ol] by (simp add: m)
  show "out_features (out_lin_layer m) = nat dm" using Linear_init_Inr(4)[OF ol] by (simp add: m)
  show "bias (out_lin_layer m) \<noteq> None" using Linear_init_Inr(5)[OF ol] by (simp add: m)
qed

lemma MultiHeadAttention_init_small:
  assumes "py_truediv dm nh = Inr q" and "py_int q * nh = dm"
    and "0 \<le> dm" and "0 \<le> py_int q" and "0 < nh"
    and "nat (py_int q) * nat dm \<le> 2 ^ 20" and "nat dm * nat dm \<le> 2 ^ 20"
    and "nat dm \<le> 2 ^ 20" and "nat nh \<le> 2 ^ 20"
    and "dm < 2 ^ 63" and "py_int q < 2 ^ 63" and "nh < 2 ^ 63"
  shows "\<exists>m st'. MultiHeadAttention_init dm nh rng st = Inr (m, st') \<and> d_k m = py_int q"
proof -
  obtain h s1 where h: "Attention_init dm (py_int q) rng st = Inr (h, s1)"
    using Attention_init_small[OF assms(3,4,6,10,11), of rng st] by blast
  have "list_granted s1 (nat nh)" using assms(9) by (simp add: list_granted_def)
  then have hs: "list_repeat s1 h nh = Inr (replicate (nat nh) h)"
    by (rule list_repeat_succeeds[OF assms(5,12)])
  have "granted s1 (fresh s1) (nat dm * nat dm)" "True \<longrightarrow> granted s1 (fresh s1 + 1) (nat dm)"
    using granted_small[OF assms(7)] granted_small[OF assms(8)] by simp_all
  from Linear_init_succeeds[OF assms(3,10,3,10) this, of rng]
  obtain ol s2 where ol: "Linear_init dm dm True rng s1 = Inr (ol, s2)" by blast
  show ?thesis
    by (simp add: MultiHeadAttention_init_def assms(1,2) h hs ol)
qed

lemma MultiHeadAttention_init_512_8:
  "\<exists>m st'. MultiHeadAttention_init 512 8 rng st = Inr (m, st') \<and> d_k m = 64"
proof -
  have k: "py_int 64 = 64" by (simp add: py_int_def)
  have "\<exists>m st'. MultiHeadAttention_init 512 8 rng st = Inr (m, st') \<and> d_k m = py_int 64"
    by (rule MultiHeadAttention_init_small[OF py_truediv_512_8]) (simp_all add: k)
  then show ?thesis by (simp add: k)
qed

lemma MultiHeadAttention_init_512_7:
  "MultiHeadAttention_init 512 7 rng st = Inl AssertionError"
  by (simp add: MultiHeadAttention_init_def py_truediv_512_7 py_int_512_7)

lemma MultiHeadAttention_heads_one_object:
  assumes "MultiHeadAttention_init dm nh rng st = Inr (m, st')"
    and "i < length (heads m)" and "j < length (heads m)"
  shows "heads m ! i = heads m ! j"
proof -
  from MultiHeadAttention_init_Inr(1)[OF assms(1)]
  obtain h where h: "heads m = replicate (nat nh) h" by blast
  with assms(2,3) show ?thesis by simp
qed

lemma FullyConnectedFeedForwardNetwork_layers_Inr:
  assumes "FullyConnectedFeedForwardNetwork_layers dm dh rng st = Inr (l1, l2, st2)"
  shows "0 \<le> dm" and "0 \<le> dh"
    and "in_features l1 = nat dm" and "out_features l1 = nat dh"
    and "in_features l2 = nat dh" and "out_features l2 = nat dm"
    and "bias l1 = Some (fresh st + 1)" and "bias l2 = Some (fresh st + 3)"
    and "fresh st2 = fresh st + 4"
    and "weight l1 = fresh st" and "weight l2 = fresh st + 2"
    and "dm < 2 ^ 63" and "dh < 2 ^ 63"
    and "granted st (fresh st) (nat dh * nat dm) \<and> granted st (fresh st + 1) (nat dh) \<and>
         granted st (fresh st + 2) (nat dm * nat dh) \<and> granted st (fresh st + 3) (nat dm)"
proof -
  from assms obtain s1 where
    l1: "Linear_init dm dh True rng st = Inr (l1, s1)" and
    l2: "Linear_init dh dm True rng s1 = Inr (l2, st2)"
    by (auto simp: FullyConnectedFeedForwardNetwork_layers_def split: sum.splits)
  note f1 = Linear_init_Inr[OF l1] and f2 = Linear_init_Inr[OF l2]
  show "0 \<le> dm" "0 \<le> dh" using f1(1,2) by simp_all
  show "in_features l1 = nat dm" "out_features l1 = nat dh" using f1(3,4) by simp_all
  show "in_features l2 = nat dh" "out_features l2 = nat dm" using f2(3,4) by simp_all
  show "bias l1 = Some (fresh st + 1)" using Linear_init_bias[OF l1] .
  show "bias l2 = Some (fresh st + 3)" using Linear_init_bias[OF l2] f1(7) by simp
  show "fresh st2 = fresh st + 4" using f2(7) f1(7) by simp
  show "weight l1 = fresh st" using f1(6) .
  show "weight l2 = fresh st + 2" using f2(6) f1(7) by simp
  show "dm < 2 ^ 63" "dh < 2 ^ 63" using f1(9,10) by simp_all
  have "granted st (fresh st + 2) (nat dm * nat dh)" "granted st (fresh st + 3) (nat dm)"
    using f2(11,13) f1(7) f1(8) by (simp_all add: granted_def numeral_3_eq_3)
  then show "granted st (fresh st) (nat dh * nat dm) \<and> granted st (fresh st + 1) (nat dh) \<and>
         granted st (fresh st + 2) (nat dm * nat dh) \<and> granted st (fresh st + 3) (nat dm)"
    using f1(11,13) by simp
qed

lemma FullyConnectedFeedForwardNetwork_layers_succeeds:
  assumes "0 \<le> dm" and "dm < 2 ^ 63" and "0 \<le> dh" and "dh < 2 ^ 63"
    and "granted st (fresh st) (nat dh * nat dm)" and "granted st (fresh st + 1) (nat dh)"
    and "granted st (fresh st + 2) (nat dm * nat dh)" and "granted st (fresh st + 3) (nat dm)"
  shows "\<exists>l1 l2 st2. FullyConnectedFeedForwardNetwork_layers dm dh rng st = Inr (l1, l2, st2)"
proof -
  obtain l1 s1 where l1: "Linear_init dm dh True rng st = Inr (l1, s1)"
    using Linear_init_succeeds[OF assms(1-5), of True rng] assms(6) by auto
  note f1 = Linear_init_Inr[OF l1]
  have "granted s1 (fresh s1) (nat dm * nat dh)" "True \<longrightarrow> granted s1 (fresh s1 + 1) (nat dm)"
    using assms(7,8) f1(7,8) by (simp_all add: granted_def numeral_3_eq_3)
  from Linear_init_succeeds[OF assms(3,4,1,2) this, of rng]
  obtain l2 s2 where "Linear_init dh dm True rng s1 = Inr (l2, s2)" by blast
  then show ?thesis by (simp add: FullyConnectedFeedForwardNetwork_layers_def l1)
qed

lemma FullyConnectedFeedForwardNetwork_layers_small:
  assumes "0 \<le> dm" and "0 \<le> dh" and "nat dh * nat dm \<le> 2 ^ 20"
    and "nat dh \<le> 2 ^ 20" and "nat dm \<le> 2 ^ 20" and "dm < 2 ^ 63" and "dh < 2 ^ 63"
  shows "\<exists>l1 l2 st2. FullyConnectedFeedForwardNetwork_layers dm dh rng st = Inr (l1, l2, st2)"
proof -
  have "nat dm * nat dh \<le> 2 ^ 20" using assms(3) by (simp add: mult.commute)
  then show ?thesis
    using FullyConnectedFeedForwardNetwork_layers_succeeds[OF assms(1,6,2,7)]
      granted_small[OF assms(3)] granted_small[OF assms(4)] granted_small[OF assms(5)]
      granted_small[of "nat dm * nat dh"]
    by blast
qed

lemma FullyConnectedFeedForwardNetwork_layers_error:
  assumes "FullyConnectedFeedForwardNetwork_layers dm dh rng st = Inl e"
  shows "e = TypeError \<or> e = RuntimeError NegativeDimension \<or> e = RuntimeError AllocationFailed"
proof (cases "Linear_init dm dh True rng st")
  case (Inl e')
  with assms Linear_init_error[OF Inl] show ?thesis
    by (simp add: FullyConnectedFeedForwardNetwork_layers_def)
next
  case (Inr r)
  obtain l1 s1 where r: "r = (l1, s1)" by (cases r)
  show ?thesis
  proof (cases "Linear_init dh dm True rng s1")
    case (Inl e')
    with assms Inr r Linear_init_error[OF Inl] show ?thesis
      by (simp add: FullyConnectedFeedForwardNetwork_layers_def)
  next
    case r2: (Inr r2)
    obtain l2 s2 where "r2 = (l2, s2)" by (cases r2)
    with assms Inr r r2 show ?thesis
      by (simp add: FullyConnectedFeedForwardNetwork_layers_def)
  qed
qed

lemma FullyConnectedFeedForwardNetwork_init_Inr:
  assumes "FullyConnectedFeedForwardNetwork_init dm dh p rng st = Inr (f, st')"
  shows "0 \<le> dm" and "0 \<le> dh" and "0 \<le> p" and "p \<le> 1"
    and "in_features (lin1 f) = nat dm" and "out_features (lin1 f) = nat dh"
    and "in_features (lin2 f) = nat dh" and "out_features (lin2 f) = nat dm"
    and "bias (lin1 f) = Some (fresh st + 1)" and "bias (lin2 f) = Some (fresh st + 3)"
    and "dropout_p f = p" and "training f"
proof -
  from assms obtain l1 l2 where
    l: "FullyConnectedFeedForwardNetwork_layers dm dh rng st = Inr (l1, l2, st')" and
    p: "\<not> (p < 0 \<or> 1 < p)" and
    f: "f = \<lparr>lin1 = l1, lin2 = l2, dropout_p = p, training = True\<rparr>"
    by (auto simp: FullyConnectedFeedForwardNetwork_init_def split: sum.splits if_splits)
  note s = FullyConnectedFeedForwardNetwork_layers_Inr[OF l]
  show "0 \<le> dm" "0 \<le> dh" using s(1,2) by simp_all
  show "0 \<le> p" "p \<le> 1" using p by simp_all
  show "in_features (lin1 f) = nat dm" "out_features (lin1 f) = nat dh"
    "in_features (lin2 f) = nat dh" "out_features (lin2 f) = nat dm"
    "bias (lin1 f) = Some (fresh st + 1)" "bias (lin2 f) = Some (fresh st + 3)"
    using s(3-8) by (simp_all add: f)
  show "dropout_p f = p" "training f" by (simp_all add: f)
qed

lemma FullyConnectedFeedForwardNetwork_init_default:
  "\<exists>f st'. FullyConnectedFeedForwardNetwork_init 512 2048 (1 / 2) rng0 store0 = Inr (f, st')"
proof -
  have "\<exists>l1 l2 st2. FullyConnectedFeedForwardNetwork_layers 512 2048 rng0 store0 = Inr (l1, l2, st2)"
    by (rule FullyConnectedFeedForwardNetwork_layers_small) simp_all
  then show ?thesis by (auto simp: FullyConnectedFeedForwardNetwork_init_def)
qed

section \<open>Claims on construction\<close>

text \<open>
  Claim C10. \<^verbatim>\<open>MultiHeadAttention(d_model, 0)\<close>: the head dimension
  \<^verbatim>\<open>int(d_model/n_heads)\<close> is computed first and without a guard, so the division
  raises \<^verbatim>\<open>ZeroDivisionError\<close> and the \<^verbatim>\<open>assert\<close> on divisibility is never reached:
  the constructor ends with the division's error, not with the assertion's.
\<close>

theorem MultiHeadAttention_zero_heads:
  "py_truediv dm 0 = Inl ZeroDivisionError \<and>
   MultiHeadAttention_init dm 0 rng st = Inl ZeroDivisionError \<and>
   MultiHeadAttention_init dm 0 rng st \<noteq> Inl AssertionError"
  by (simp add: MultiHeadAttention_init_def py_truediv_def)

text \<open>
  Claim C2. Whenever the head dimension \<open>d_k = int(d_model/n_heads)\<close> is computed and
  \<open>d_k * n_heads \<noteq> d_model\<close>, the constructor of \<^verbatim>\<open>MultiHeadAttention\<close> ends with
  the assertion's error, and with that error in no other case; this is the constructor's
  result, so no \<^verbatim>\<open>forward\<close> has run. For \<open>d_model = 512\<close>: seven heads fail, eight
  heads succeed with \<open>d_k = 64\<close>.
\<close>

theorem MultiHeadAttention_divisibility:
  "(py_truediv dm nh = Inr q \<longrightarrow>
      (MultiHeadAttention_init dm nh rng st = Inl AssertionError) = (py_int q * nh \<noteq> dm)) \<and>
   MultiHeadAttention_init 512 7 rng st = Inl AssertionError \<and>
   (\<exists>m st'. MultiHeadAttention_init 512 8 rng st = Inr (m, st') \<and> d_k m = 64)"
  using MultiHeadAttention_init_assert MultiHeadAttention_init_512_7 MultiHeadAttention_init_512_8
  by blast

theorem MultiHeadAttention_divisibility_witness:
  "py_truediv 512 7 = Inr (2573485501354569 / 35184372088832) \<and>
   py_int (2573485501354569 / 35184372088832) * 7 \<noteq> 512 \<and>
   MultiHeadAttention_init 512 7 rng0 store0 = Inl AssertionError"
proof -
  have q: "py_truediv 512 7 = Inr (2573485501354569 / 35184372088832)"
    by (rule py_truediv_512_7)
  have ne: "py_int (2573485501354569 / 35184372088832) * 7 \<noteq> 512"
    by (simp add: py_int_512_7)
  from MultiHeadAttention_divisibility[of 512 7 "2573485501354569 / 35184372088832" rng0 store0]
  have "(MultiHeadAttention_init 512 7 rng0 store0 = Inl AssertionError) =
        (py_int (2573485501354569 / 35184372088832) * 7 \<noteq> 512)"
    using q by blast
  with q ne show ?thesis by blast
qed

text \<open>
  Claim C1, which the code does not meet. The claim asks for \<open>n_heads\<close> heads with
  parameters of their own. The notebook's default instance \<^verbatim>\<open>MultiHeadAttention()\<close>
  has eight list positions and one head: positions 0 and 1 hold the same head, and the
  query, key and value weights of position 0 and of position 7 are at the same addresses,
  so an update of one is an update of all.
\<close>

theorem MultiHeadAttention_default_heads_alias:
  "\<not> isl (MultiHeadAttention_init 512 8 rng0 store0) \<and> length (heads mha0) = 8 \<and>
   heads mha0 ! 0 = heads mha0 ! 1 \<and>
   weight (weightQ (heads mha0 ! 0)) = weight (weightQ (heads mha0 ! 7)) \<and>
   weight (weightK (heads mha0 ! 0)) = weight (weightK (heads mha0 ! 7)) \<and>
   weight (weightV (heads mha0 ! 0)) = weight (weightV (heads mha0 ! 7))"
proof -
  obtain m st' where m: "MultiHeadAttention_init 512 8 rng0 store0 = Inr (m, st')"
    using MultiHeadAttention_init_512_8[of rng0 store0] by blast
  have m0: "mha0 = m" by (simp add: mha0_def m)
  from MultiHeadAttention_init_Inr(1)[OF m]
  obtain h where h: "heads m = replicate 8 h" by auto
  show ?thesis by (simp add: m m0 h)
qed

text \<open>
  Claim C6 as stated fails, in both halves: \<^verbatim>\<open>Attention(512, 0)\<close> has
  \<open>head_dim \<le> 0\<close> and is constructed; \<^verbatim>\<open>Attention(2 ** 63, 1)\<close> has positive
  dimensions and is not, the tensor library refusing a size that is not a 64-bit integer.
\<close>

theorem Attention_init_claim_fails:
  "(0::int) \<le> 0 \<and> \<not> isl (Attention_init 512 0 rng0 store0) \<and>
   (0::int) < 2 ^ 63 \<and> (0::int) < 1 \<and> Attention_init (2 ^ 63) 1 rng0 store0 = Inl TypeError"
proof -
  have "\<exists>a st'. Attention_init 512 0 rng0 store0 = Inr (a, st')"
    by (rule Attention_init_small) simp_all
  moreover have "Attention_init (2 ^ 63) 1 rng0 store0 = Inl TypeError"
    by (rule Attention_init_type_error) (simp add: int64_def)
  ultimately show ?thesis by auto
qed

text \<open>
  Claim C6, amended. \<^verbatim>\<open>Attention.__init__\<close> has no check of its own: every error it
  ends with is the tensor library's \<^verbatim>\<open>TypeError\<close> or \<^verbatim>\<open>RuntimeError\<close>. It fails
  whenever \<open>d_model < 0\<close> or \<open>d_k < 0\<close>, for 64-bit dimensions with the library's error
  for a negative dimension. For dimensions that are not negative, zero included, it
  succeeds exactly when both are below \<open>2 ^ 63\<close> and the allocator grants the three
  weights of \<open>d_k * d_model\<close> floats.
\<close>

theorem Attention_init_dimensions:
  "(Attention_init dm dk rng st = Inl e \<longrightarrow>
      e = TypeError \<or> e = RuntimeError NegativeDimension \<or> e = RuntimeError AllocationFailed) \<and>
   (dm < 0 \<or> dk < 0 \<longrightarrow> isl (Attention_init dm dk rng st)) \<and>
   (int64 dm \<and> int64 dk \<and> (dm < 0 \<or> dk < 0) \<longrightarrow>
      Attention_init dm dk rng st = Inl (RuntimeError NegativeDimension)) \<and>
   (0 \<le> dm \<and> 0 \<le> dk \<longrightarrow>
      (\<not> isl (Attention_init dm dk rng st)) =
      (dm < 2 ^ 63 \<and> dk < 2 ^ 63 \<and>
       granted st (fresh st) (nat dk * nat dm) \<and>
       granted st (fresh st + 1) (nat dk * nat dm) \<and>
       granted st (fresh st + 2) (nat dk * nat dm)))"
proof (intro conjI impI)
  assume "Attention_init dm dk rng st = Inl e"
  then show "e = TypeError \<or> e = RuntimeError NegativeDimension \<or>
      e = RuntimeError AllocationFailed"
    by (rule Attention_init_error)
next
  assume n: "dm < 0 \<or> dk < 0"
  show "isl (Attention_init dm dk rng st)"
  proof (cases "int64 dm \<and> int64 dk")
    case True
    then show ?thesis using Attention_init_negative[of dm dk rng st] n by simp
  next
    case False
    then show ?thesis using Attention_init_type_error[of dm dk rng st] by auto
  qed
next
  assume "int64 dm \<and> int64 dk \<and> (dm < 0 \<or> dk < 0)"
  then show "Attention_init dm dk rng st = Inl (RuntimeError NegativeDimension)"
    using Attention_init_negative by blast
next
  assume p: "0 \<le> dm \<and> 0 \<le> dk"
  show "(\<not> isl (Attention_init dm dk rng st)) =
      (dm < 2 ^ 63 \<and> dk < 2 ^ 63 \<and>
       granted st (fresh st) (nat dk * nat dm) \<and>
       granted st (fresh st + 1) (nat dk * nat dm) \<and>
       granted st (fresh st + 2) (nat dk * nat dm))"
  proof
    assume "\<not> isl (Attention_init dm dk rng st)"
    then obtain a st' where "Attention_init dm dk rng st = Inr (a, st')"
      by (cases "Attention_init dm dk rng st") auto
    from Attention_init_Inr(9-11)[OF this]
    show "dm < 2 ^ 63 \<and> dk < 2 ^ 63 \<and>
       granted st (fresh st) (nat dk * nat dm) \<and>
       granted st (fresh st + 1) (nat dk * nat dm) \<and>
       granted st (fresh st + 2) (nat dk * nat dm)" by simp
  next
    assume b: "dm < 2 ^ 63 \<and> dk < 2 ^ 63 \<and>
       granted st (fresh st) (nat dk * nat dm) \<and>
       granted st (fresh st + 1) (nat dk * nat dm) \<and>
       granted st (fresh st + 2) (nat dk * nat dm)"
    have "\<exists>a st'. Attention_init dm dk rng st = Inr (a, st')"
      by (rule Attention_init_succeeds) (use p b in simp_all)
    then show "\<not> isl (Attention_init dm dk rng st)" by auto
  qed
qed

theorem Attention_init_dimensions_witness:
  "Attention_init (- 1) 64 rng0 store0 = Inl (RuntimeError NegativeDimension) \<and>
   \<not> isl (Attention_init 512 64 rng0 store0) \<and> \<not> isl (Attention_init 0 0 rng0 store0) \<and>
   Attention_init (2 ^ 40) (2 ^ 40) rng0 store0 = Inl (RuntimeError AllocationFailed)"
proof -
  have "isl (Attention_init (2 ^ 40) (2 ^ 40) rng0 store0)"
    using Attention_init_dimensions[of "2 ^ 40" "2 ^ 40" rng0 store0]
    by (simp add: granted_def store0_def nat_power_eq)
  then obtain e where e: "Attention_init (2 ^ 40) (2 ^ 40) rng0 store0 = Inl e"
    by (cases "Attention_init (2 ^ 40) (2 ^ 40) rng0 store0") auto
  have "Attention_init (2 ^ 40) (2 ^ 40) rng0 store0 \<noteq> Inl TypeError"
    by (simp add: Attention_init_def Linear_init_def int64_def new_parameter_def
        split: sum.splits)
  moreover have "Attention_init (2 ^ 40) (2 ^ 40) rng0 store0 \<noteq>
      Inl (RuntimeError NegativeDimension)"
    by (simp add: Attention_init_def Linear_init_def int64_def new_parameter_def
        split: sum.splits)
  ultimately have "Attention_init (2 ^ 40) (2 ^ 40) rng0 store0 =
      Inl (RuntimeError AllocationFailed)"
    using Attention_init_dimensions[of "2 ^ 40" "2 ^ 40" rng0 store0 e] e by auto
  then show ?thesis
    using Attention_init_dimensions[of "- 1" 64 rng0 store0]
      Attention_init_dimensions[of 512 64 rng0 store0]
      Attention_init_dimensions[of 0 0 rng0 store0]
    by (simp add: int64_def granted_def store0_def)
qed

text \<open>
  Claim C5 as stated fails, in two places. \<open>dropout_prob = 1.0\<close> is outside
  \<open>[0, 1)\<close> and \<^verbatim>\<open>FullyConnectedFeedForwardNetwork(512, 2048, 1.0)\<close> is constructed.
  And the rejection does not come before the parameters are allocated: with
  \<open>dropout_prob = 2.0\<close> the error is the dropout layer's, and the two linear layers are
  built, with their four parameter tensors, by the arguments of \<^verbatim>\<open>Sequential\<close> that
  precede \<^verbatim>\<open>Dropout\<close>; with \<open>d_model = -1\<close> as well, the error is the one the first
  \<^verbatim>\<open>Linear\<close> raises, so that layer is constructed before the probability is looked at.
\<close>

theorem FullyConnectedFeedForwardNetwork_init_claim_fails:
  "(1::real) \<notin> {0..<1} \<and>
   \<not> isl (FullyConnectedFeedForwardNetwork_init 512 2048 1 rng0 store0) \<and>
   (2::real) \<notin> {0..<1} \<and>
   FullyConnectedFeedForwardNetwork_init 512 2048 2 rng0 store0 = Inl ValueError \<and>
   \<not> isl (FullyConnectedFeedForwardNetwork_layers 512 2048 rng0 store0) \<and>
   fresh (snd (snd (projr (FullyConnectedFeedForwardNetwork_layers 512 2048 rng0 store0)))) = 4 \<and>
   FullyConnectedFeedForwardNetwork_init (- 1) 2048 2 rng0 store0 =
     Inl (RuntimeError NegativeDimension)"
proof -
  obtain l1 l2 st2 where
    l: "FullyConnectedFeedForwardNetwork_layers 512 2048 rng0 store0 = Inr (l1, l2, st2)"
    using FullyConnectedFeedForwardNetwork_layers_small[of 512 2048 rng0 store0]
    by auto
  have f: "fresh st2 = 4"
    using FullyConnectedFeedForwardNetwork_layers_Inr(9)[OF l] by (simp add: store0_def)
  have "FullyConnectedFeedForwardNetwork_init (- 1) 2048 2 rng0 store0 =
     Inl (RuntimeError NegativeDimension)"
    by (simp add: FullyConnectedFeedForwardNetwork_init_def
        FullyConnectedFeedForwardNetwork_layers_def Linear_init_def int64_def)
  then show ?thesis
    using l f by (simp add: FullyConnectedFeedForwardNetwork_init_def)
qed

text \<open>
  Claim C5, amended. The constructor fails whenever \<open>dropout_prob < 0\<close> or
  \<open>1 < dropout_prob\<close>. It ends with the dropout layer's \<^verbatim>\<open>ValueError\<close> exactly when
  the probability is in that range and both linear layers have been built; building them
  allocates their four parameter tensors, two weights and two biases, before the
  probability is checked. For \<open>0 \<le> dropout_prob \<le> 1\<close>, the bound \<open>1\<close> included, the
  constructor returns the module made of the two layers. For dimensions that are not
  negative the two layers are built exactly when both dimensions are below \<open>2 ^ 63\<close>
  and the allocator grants the four tensors.
\<close>

theorem FullyConnectedFeedForwardNetwork_init_dropout:
  "(p < 0 \<or> 1 < p \<longrightarrow> isl (FullyConnectedFeedForwardNetwork_init dm dh p rng st)) \<and>
   ((FullyConnectedFeedForwardNetwork_init dm dh p rng st = Inl ValueError) =
      ((p < 0 \<or> 1 < p) \<and> \<not> isl (FullyConnectedFeedForwardNetwork_layers dm dh rng st))) \<and>
   (FullyConnectedFeedForwardNetwork_layers dm dh rng st = Inl e \<longrightarrow>
      FullyConnectedFeedForwardNetwork_init dm dh p rng st = Inl e) \<and>
   (FullyConnectedFeedForwardNetwork_layers dm dh rng st = Inr (l1, l2, st2) \<longrightarrow>
      fresh st2 = fresh st + 4 \<and>
      weight l1 = fresh st \<and> bias l1 = Some (fresh st + 1) \<and>
      weight l2 = fresh st + 2 \<and> bias l2 = Some (fresh st + 3) \<and>
      (0 \<le> p \<and> p \<le> 1 \<longrightarrow>
         FullyConnectedFeedForwardNetwork_init dm dh p rng st =
           Inr (\<lparr>lin1 = l1, lin2 = l2, dropout_p = p, training = True\<rparr>, st2))) \<and>
   (0 \<le> dm \<and> 0 \<le> dh \<longrightarrow>
      (\<not> isl (FullyConnectedFeedForwardNetwork_layers dm dh rng st)) =
      (dm < 2 ^ 63 \<and> dh < 2 ^ 63 \<and>
       granted st (fresh st) (nat dh * nat dm) \<and> granted st (fresh st + 1) (nat dh) \<and>
       granted st (fresh st + 2) (nat dm * nat dh) \<and> granted st (fresh st + 3) (nat dm)))"
proof (intro conjI impI)
  assume p: "p < 0 \<or> 1 < p"
  show "isl (FullyConnectedFeedForwardNetwork_init dm dh p rng st)"
  proof (cases "FullyConnectedFeedForwardNetwork_init dm dh p rng st")
    case (Inl e)
    then show ?thesis by simp
  next
    case (Inr r)
    obtain f st' where "r = (f, st')" by (cases r)
    with Inr FullyConnectedFeedForwardNetwork_init_Inr(3,4)[of dm dh p rng st f st'] p
    show ?thesis by simp
  qed
next
  show "(FullyConnectedFeedForwardNetwork_init dm dh p rng st = Inl ValueError) =
      ((p < 0 \<or> 1 < p) \<and> \<not> isl (FullyConnectedFeedForwardNetwork_layers dm dh rng st))"
  proof (cases "FullyConnectedFeedForwardNetwork_layers dm dh rng st")
    case (Inl e)
    then show ?thesis
      using FullyConnectedFeedForwardNetwork_layers_error[OF Inl]
      by (auto simp: FullyConnectedFeedForwardNetwork_init_def)
  next
    case (Inr r)
    obtain a b c where "r = (a, b, c)" by (cases r)
    with Inr show ?thesis by (simp add: FullyConnectedFeedForwardNetwork_init_def)
  qed
next
  assume "FullyConnectedFeedForwardNetwork_layers dm dh rng st = Inl e"
  then show "FullyConnectedFeedForwardNetwork_init dm dh p rng st = Inl e"
    by (simp add: FullyConnectedFeedForwardNetwork_init_def)
next
  assume l: "FullyConnectedFeedForwardNetwork_layers dm dh rng st = Inr (l1, l2, st2)"
  note s = FullyConnectedFeedForwardNetwork_layers_Inr[OF l]
  show "fresh st2 = fresh st + 4" "weight l1 = fresh st" "bias l1 = Some (fresh st + 1)"
    "weight l2 = fresh st + 2" "bias l2 = Some (fresh st + 3)"
    using s(7-11) by simp_all
  assume "0 \<le> p \<and> p \<le> 1"
  then show "FullyConnectedFeedForwardNetwork_init dm dh p rng st =
           Inr (\<lparr>lin1 = l1, lin2 = l2, dropout_p = p, training = True\<rparr>, st2)"
    by (simp add: FullyConnectedFeedForwardNetwork_init_def l)
next
  assume p: "0 \<le> dm \<and> 0 \<le> dh"
  show "(\<not> isl (FullyConnectedFeedForwardNetwork_layers dm dh rng st)) =
      (dm < 2 ^ 63 \<and> dh < 2 ^ 63 \<and>
       granted st (fresh st) (nat dh * nat dm) \<and> granted st (fresh st + 1) (nat dh) \<and>
       granted st (fresh st + 2) (nat dm * nat dh) \<and> granted st (fresh st + 3) (nat dm))"
  proof
    assume "\<not> isl (FullyConnectedFeedForwardNetwork_layers dm dh rng st)"
    then obtain a b c where
      "FullyConnectedFeedForwardNetwork_layers dm dh rng st = Inr (a, b, c)"
      by (cases "FullyConnectedFeedForwardNetwork_layers dm dh rng st") auto
    from FullyConnectedFeedForwardNetwork_layers_Inr(12-14)[OF this]
    show "dm < 2 ^ 63 \<and> dh < 2 ^ 63 \<and>
       granted st (fresh st) (nat dh * nat dm) \<and> granted st (fresh st + 1) (nat dh) \<and>
       granted st (fresh st + 2) (nat dm * nat dh) \<and> granted st (fresh st + 3) (nat dm)"
      by simp
  next
    assume b: "dm < 2 ^ 63 \<and> dh < 2 ^ 63 \<and>
       granted st (fresh st) (nat dh * nat dm) \<and> granted st (fresh st + 1) (nat dh) \<and>
       granted st (fresh st + 2) (nat dm * nat dh) \<and> granted st (fresh st + 3) (nat dm)"
    have "\<exists>l1 l2 st2. FullyConnectedFeedForwardNetwork_layers dm dh rng st = Inr (l1, l2, st2)"
      by (rule FullyConnectedFeedForwardNetwork_layers_succeeds) (use p b in simp_all)
    then show "\<not> isl (FullyConnectedFeedForwardNetwork_layers dm dh rng st)" by auto
  qed
qed

theorem FullyConnectedFeedForwardNetwork_init_dropout_witness:
  "FullyConnectedFeedForwardNetwork_init 512 2048 (- 1 / 2) rng0 store0 = Inl ValueError \<and>
   FullyConnectedFeedForwardNetwork_init 512 2048 (3 / 2) rng0 store0 = Inl ValueError \<and>
   isl (FullyConnectedFeedForwardNetwork_init (- 1) 2048 2 rng0 store0) \<and>
   FullyConnectedFeedForwardNetwork_layers (- 1) 2048 rng0 store0 =
     Inl (RuntimeError NegativeDimension) \<and>
   FullyConnectedFeedForwardNetwork_init (- 1) 2048 (1 / 2) rng0 store0 =
     Inl (RuntimeError NegativeDimension) \<and>
   \<not> isl (FullyConnectedFeedForwardNetwork_layers 512 2048 rng0 store0) \<and>
   \<not> isl (FullyConnectedFeedForwardNetwork_init 512 2048 (1 / 2) rng0 store0)"
proof -
  note t = FullyConnectedFeedForwardNetwork_init_dropout[where dm = 512 and dh = 2048
      and rng = rng0 and st = store0]
  have l: "\<not> isl (FullyConnectedFeedForwardNetwork_layers 512 2048 rng0 store0)"
    using t by (simp add: granted_def)
  then obtain l1 l2 st2 where
    r: "FullyConnectedFeedForwardNetwork_layers 512 2048 rng0 store0 = Inr (l1, l2, st2)"
    by (cases "FullyConnectedFeedForwardNetwork_layers 512 2048 rng0 store0") auto
  have "FullyConnectedFeedForwardNetwork_init 512 2048 (- 1 / 2) rng0 store0 = Inl ValueError"
    using t[of "- 1 / 2"] l by simp
  moreover have "FullyConnectedFeedForwardNetwork_init 512 2048 (3 / 2) rng0 store0 = Inl ValueError"
    using t[of "3 / 2"] l by simp
  moreover have "isl (FullyConnectedFeedForwardNetwork_init (- 1) 2048 2 rng0 store0)"
    using FullyConnectedFeedForwardNetwork_init_dropout[of 2 "- 1" 2048 rng0 store0] by simp
  moreover have n: "FullyConnectedFeedForwardNetwork_layers (- 1) 2048 rng0 store0 =
     Inl (RuntimeError NegativeDimension)"
    by (simp add: FullyConnectedFeedForwardNetwork_layers_def Linear_init_def int64_def)
  moreover have "FullyConnectedFeedForwardNetwork_init (- 1) 2048 (1 / 2) rng0 store0 =
     Inl (RuntimeError NegativeDimension)"
    using FullyConnectedFeedForwardNetwork_init_dropout[where p = "1 / 2" and dm = "- 1"
        and dh = 2048 and rng = rng0 and st = store0 and e = "RuntimeError NegativeDimension"] n
    by simp
  moreover have "\<not> isl (FullyConnectedFeedForwardNetwork_init 512 2048 (1 / 2) rng0 store0)"
    using t[where p = "1 / 2" and ?l1.0 = l1 and ?l2.0 = l2 and ?st2.0 = st2] r by simp
  ultimately show ?thesis using l by blast
qed

section \<open>The forward methods on constructed modules\<close>

text \<open>
  A linear layer and a head on an input of the right and of the wrong trailing dimension;
  the heads of a list, called in order; \<^verbatim>\<open>torch.cat\<close> on tensors of one shape; the
  sign of the dimensions of a constructed \<^verbatim>\<open>MultiHeadAttention\<close>; the two linear
  layers of the feed-forward network.
\<close>

lemma Linear_forward_Inr:
  assumes "dim2 x = in_features l"
  shows "Linear_forward st l x =
     Inr \<lparr>dim0 = dim0 x, dim1 = dim1 x, dim2 = out_features l,
           el = (\<lambda>b i c. (\<Sum>m<in_features l. el x b i m * cells st (weight l) c m)
                          + (case bias l of None \<Rightarrow> 0 | Some a \<Rightarrow> cells st a 0 c))\<rparr>"
  using assms by (simp add: Linear_forward_def)

lemma Linear_forward_mismatch:
  assumes "dim2 x \<noteq> in_features l"
  shows "Linear_forward st l x = Inl (RuntimeError ShapeMismatch)"
  using assms by (simp add: Linear_forward_def)

lemma Attention_inter_Inr:
  assumes "head_shape (dim2 x) k a"
  shows "Attention_inter st a x =
     Inr (\<lparr>dim0 = dim0 x, dim1 = dim1 x, dim2 = dim1 x,
            el = spec_weights (spec_W st (weightQ a)) (spec_W st (weightK a)) k x\<rparr>,
          \<lparr>dim0 = dim0 x, dim1 = dim1 x, dim2 = k,
            el = spec_project (spec_W st (weightV a)) x\<rparr>)"
  using assms
  by (simp add: Attention_inter_def head_shape_def Linear_forward_Inr torch_bmm_def
      torch_transpose_1_2_def softmax_last_def tensor_div_def math_sqrt_def
      spec_weights_def spec_scores_def spec_project_def spec_W_def fun_eq_iff)

lemma Attention_forward_Inr:
  assumes "head_shape (dim2 x) k a"
  shows "Attention_forward st a x =
     Inr \<lparr>dim0 = dim0 x, dim1 = dim1 x, dim2 = k,
           el = spec_attention (spec_W st (weightQ a)) (spec_W st (weightK a))
                  (spec_W st (weightV a)) k x\<rparr>"
  by (simp add: Attention_forward_def Attention_inter_Inr[OF assms] torch_bmm_def
      spec_attention_def fun_eq_iff)

lemma Attention_forward_mismatch:
  assumes "head_shape n k a" and "dim2 x \<noteq> n"
  shows "Attention_forward st a x = Inl (RuntimeError ShapeMismatch)"
  using assms
  by (simp add: Attention_forward_def Attention_inter_def head_shape_def Linear_forward_mismatch)

lemma forward_heads_Inr:
  assumes "\<forall>h\<in>set hs. head_shape (dim2 x) k h"
  shows "\<exists>ys. forward_heads st hs x = Inr ys \<and> length ys = length hs \<and>
     (\<forall>n<length hs. Attention_forward st (hs ! n) x = Inr (ys ! n) \<and>
        dim0 (ys ! n) = dim0 x \<and> dim1 (ys ! n) = dim1 x \<and> dim2 (ys ! n) = k)"
  using assms
proof (induction hs)
  case Nil
  then show ?case by simp
next
  case (Cons h hs)
  then have h: "head_shape (dim2 x) k h" by simp
  from Cons obtain ys where ys: "forward_heads st hs x = Inr ys" "length ys = length hs"
    and nth: "\<forall>n<length hs. Attention_forward st (hs ! n) x = Inr (ys ! n) \<and>
        dim0 (ys ! n) = dim0 x \<and> dim1 (ys ! n) = dim1 x \<and> dim2 (ys ! n) = k"
    by auto
  let ?y = "\<lparr>dim0 = dim0 x, dim1 = dim1 x, dim2 = k,
           el = spec_attention (spec_W st (weightQ h)) (spec_W st (weightK h))
                  (spec_W st (weightV h)) k x\<rparr>"
  have y: "Attention_forward st h x = Inr ?y" by (rule Attention_forward_Inr[OF h])
  have "forward_heads st (h # hs) x = Inr (?y # ys)" by (simp add: y ys)
  moreover have "length (?y # ys) = length (h # hs)" by (simp add: ys)
  moreover have "\<forall>n<length (h # hs). Attention_forward st ((h # hs) ! n) x = Inr ((?y # ys) ! n) \<and>
        dim0 ((?y # ys) ! n) = dim0 x \<and> dim1 ((?y # ys) ! n) = dim1 x \<and> dim2 ((?y # ys) ! n) = k"
  proof (intro allI impI)
    fix n assume "n < length (h # hs)"
    then show "Attention_forward st ((h # hs) ! n) x = Inr ((?y # ys) ! n) \<and>
        dim0 ((?y # ys) ! n) = dim0 x \<and> dim1 ((?y # ys) ! n) = dim1 x \<and> dim2 ((?y # ys) ! n) = k"
      using nth y by (cases n) simp_all
  qed
  ultimately show ?case by blast
qed

lemma sum_list_dim2:
  assumes "\<forall>t\<in>set ts. dim2 t = k"
  shows "sum_list (map dim2 ts) = length ts * k"
  using assms by (induction ts) simp_all

lemma cat_el_nth:
  assumes "\<forall>t\<in>set ts. dim2 t = k" and "n < length ts" and "j < k"
  shows "cat_el ts b i (n * k + j) = el (ts ! n) b i j"
  using assms
proof (induction ts arbitrary: n)
  case Nil
  then show ?case by simp
next
  case (Cons t ts)
  show ?case
  proof (cases n)
    case 0
    with Cons.prems show ?thesis by simp
  next
    case (Suc n')
    with Cons.prems have "n' < length ts" and k: "dim2 t = k" and "\<forall>t\<in>set ts. dim2 t = k"
      by simp_all
    from Cons.IH[OF this(3) this(1) Cons.prems(3)]
    show ?thesis using Suc k by simp
  qed
qed

lemma torch_cat_last_Inr:
  assumes "ts \<noteq> []" and "\<forall>t\<in>set ts. dim0 t = n0 \<and> dim1 t = n1 \<and> dim2 t = k"
  shows "torch_cat_last ts =
     Inr \<lparr>dim0 = n0, dim1 = n1, dim2 = length ts * k, el = cat_el ts\<rparr>"
proof -
  from assms(1) obtain t rest where ts: "ts = t # rest" by (cases ts) auto
  have "\<forall>t\<in>set ts. dim2 t = k" using assms(2) by simp
  then have s: "sum_list (map dim2 ts) = length ts * k" by (rule sum_list_dim2)
  have "list_all (\<lambda>u. dim0 u = dim0 t \<and> dim1 u = dim1 t) rest"
    using assms(2) by (simp add: ts list_all_iff)
  moreover have "dim0 t = n0" "dim1 t = n1" using assms(2) by (simp_all add: ts)
  ultimately show ?thesis
    using s by (simp add: torch_cat_last_def ts)
qed

lemma MultiHeadAttention_init_heads_positive:
  assumes "MultiHeadAttention_init dm nh rng st = Inr (m, st')" and "0 < dm"
  shows "0 < nh" and "0 < d_k m" and "nat nh * nat (d_k m) = nat dm"
proof -
  have e: "d_k m * nh = dm" and k: "0 \<le> d_k m"
    using MultiHeadAttention_init_Inr(2,4)[OF assms(1)] by simp_all
  show kp: "0 < d_k m" using e k assms(2) by (cases "d_k m = 0") simp_all
  have "0 < d_k m * nh" using e assms(2) by simp
  then show np: "0 < nh" using kp by (rule zero_less_mult_pos)
  have "nat nh * nat (d_k m) = nat (nh * d_k m)" using np by (simp add: nat_mult_distrib)
  then show "nat nh * nat (d_k m) = nat dm" using e by (simp add: mult.commute)
qed

lemma feed_forward_layers:
  assumes "dim2 x = in_features l1" and "out_features l1 = in_features l2"
    and "bias l1 = Some a1" and "bias l2 = Some a2"
  shows "\<exists>h z. Linear_forward st l1 x = Inr h \<and>
      dim0 h = dim0 x \<and> dim1 h = dim1 x \<and> dim2 h = out_features l1 \<and>
      el (torch_relu h) = spec_hidden (spec_W st l1) (spec_b st l1) x \<and>
      Linear_forward st l2 (torch_relu h) = Inr z \<and>
      dim0 z = dim0 x \<and> dim1 z = dim1 x \<and> dim2 z = out_features l2 \<and>
      el z = spec_ffn_linear (spec_W st l1) (spec_b st l1) (spec_W st l2) (spec_b st l2)
               (out_features l1) x"
  using assms
  by (simp add: Linear_forward_def torch_relu_def spec_ffn_linear_def
      spec_hidden_def spec_project_def spec_W_def spec_b_def fun_eq_iff)

subsection \<open>The specification's softmax over the reals\<close>

text \<open>
  Over the reals every row of the specification's weights sums to \<open>1\<close> and has no negative
  entry. This is a fact about the formula; it says nothing about the floats the library
  returns, which are rounded and can be \<open>nan\<close>.
\<close>

lemma spec_weights_sum:
  assumes "i < dim1 x"
  shows "(\<Sum>j<dim1 x. spec_weights Wq Wk k x b i j) = 1"
proof -
  let ?Z = "\<Sum>j<dim1 x. exp (spec_scores Wq Wk k x b i j)"
  have "{..<dim1 x} \<noteq> {}" using assms by auto
  then have "0 < ?Z" by (intro sum_pos) simp_all
  have "(\<Sum>j<dim1 x. spec_weights Wq Wk k x b i j) = ?Z / ?Z"
    by (simp only: spec_weights_def sum_divide_distrib)
  with \<open>0 < ?Z\<close> show ?thesis by simp
qed

lemma spec_weights_nonneg: "0 \<le> spec_weights Wq Wk k x b i j"
  by (simp add: spec_weights_def sum_nonneg)

subsection \<open>A head with two positions and two features\<close>

lemma Attention_init_2_2:
  "Attention_init 2 2 rng1 store0 =
     Inr (\<lparr>weightQ = \<lparr>in_features = 2, out_features = 2, weight = 0, bias = None\<rparr>,
           weightK = \<lparr>in_features = 2, out_features = 2, weight = 1, bias = None\<rparr>,
           weightV = \<lparr>in_features = 2, out_features = 2, weight = 2, bias = None\<rparr>\<rparr>,
          \<lparr>fresh = 3, cells = (\<lambda>a. if a < 3 then rng1 a else (\<lambda>i j. 0)),
            grants = (\<lambda>k n. False), list_grants = (\<lambda>n. False)\<rparr>)"
  by (auto simp: Attention_init_def Linear_init_def new_parameter_def granted_def
      int64_def store0_def fun_eq_iff numeral_3_eq_3 less_Suc_eq)

section \<open>Claims on the forward methods\<close>

text \<open>
  Claim C3. For a constructed head with \<open>0 < d_k\<close>, whatever its parameters hold, and an
  input of shape \<open>(batch, seq_len, d_model)\<close>: the three projections are from
  \<open>d_model\<close> to \<open>d_k\<close> features and have no bias, \<^verbatim>\<open>forward\<close> returns a tensor of
  shape \<open>(batch, seq_len, d_k)\<close>, and each of its entries is the specification's
  \<open>softmax(query \<cdot> key\<^sup>T / sqrt d_k) \<cdot> value\<close> with \<open>query = input \<cdot> W_q\<close>,
  \<open>key = input \<cdot> W_k\<close>, \<open>value = input \<cdot> W_v\<close> and the softmax along the last axis.
  Entries are exact reals.
\<close>

theorem Attention_forward_scaled_dot_product:
  assumes "Attention_init dm dk rng st0 = Inr (a, st1)" and "0 < dk" and "int (dim2 x) = dm"
  shows "head_shape (nat dm) (nat dk) a \<and>
    bias (weightQ a) = None \<and> bias (weightK a) = None \<and> bias (weightV a) = None \<and>
    (\<exists>y. Attention_forward st a x = Inr y \<and>
        dim0 y = dim0 x \<and> dim1 y = dim1 x \<and> int (dim2 y) = dk \<and>
        (\<forall>b<dim0 x. \<forall>i<dim1 x. \<forall>c<dim2 y.
           el y b i c = spec_attention (spec_W st (weightQ a)) (spec_W st (weightK a))
                          (spec_W st (weightV a)) (nat dk) x b i c))"
proof -
  have hs: "head_shape (nat dm) (nat dk) a" by (rule Attention_init_Inr(3)[OF assms(1)])
  have "nat dm = dim2 x" using assms(3) by auto
  with hs have hx: "head_shape (dim2 x) (nat dk) a" by simp
  show ?thesis
    using hs assms(2) by (simp add: Attention_forward_Inr[OF hx] head_shape_def)
qed

theorem Attention_forward_scaled_dot_product_witness:
  "\<exists>a st1 y. Attention_init 2 2 rng1 store0 = Inr (a, st1) \<and> (0::int) < 2 \<and>
     int (dim2 steps) = 2 \<and> Attention_forward st1 a steps = Inr y \<and>
     dim0 y = 1 \<and> dim1 y = 2 \<and> dim2 y = 2 \<and> bias (weightQ a) = None \<and>
     el y 0 1 1 = spec_attention (spec_W st1 (weightQ a)) (spec_W st1 (weightK a))
                    (spec_W st1 (weightV a)) 2 steps 0 1 1 \<and>
     el y 0 1 1 = exp (6 / sqrt 2) * 3 / (exp (4 / sqrt 2) + exp (6 / sqrt 2)) \<and>
     el y 0 1 1 < 3 \<and>
     el y 0 0 1 = 3 / 2"
proof -
  obtain a st1 where i: "Attention_init 2 2 rng1 store0 = Inr (a, st1)"
     and a: "a = \<lparr>weightQ = \<lparr>in_features = 2, out_features = 2, weight = 0, bias = None\<rparr>,
           weightK = \<lparr>in_features = 2, out_features = 2, weight = 1, bias = None\<rparr>,
           weightV = \<lparr>in_features = 2, out_features = 2, weight = 2, bias = None\<rparr>\<rparr>"
     and st1: "st1 = \<lparr>fresh = 3, cells = (\<lambda>a. if a < 3 then rng1 a else (\<lambda>i j. 0)),
           grants = (\<lambda>k n. False), list_grants = (\<lambda>n. False)\<rparr>"
    using Attention_init_2_2 by blast
  have d: "int (dim2 steps) = 2" by (simp add: steps_def)
  from Attention_forward_scaled_dot_product[OF i _ d, of st1]
  obtain y where y: "Attention_forward st1 a steps = Inr y"
    and sh: "dim0 y = 1" "dim1 y = 2" "dim2 y = 2" "bias (weightQ a) = None"
    and e: "\<forall>b<dim0 steps. \<forall>i<dim1 steps. \<forall>c<dim2 y.
       el y b i c = spec_attention (spec_W st1 (weightQ a)) (spec_W st1 (weightK a))
                    (spec_W st1 (weightV a)) (nat 2) steps b i c"
    by (auto simp: steps_def)
  have e11: "el y 0 1 1 = spec_attention (spec_W st1 (weightQ a)) (spec_W st1 (weightK a))
                    (spec_W st1 (weightV a)) 2 steps 0 1 1"
    and e01: "el y 0 0 1 = spec_attention (spec_W st1 (weightQ a)) (spec_W st1 (weightK a))
                    (spec_W st1 (weightV a)) 2 steps 0 0 1"
    using e sh(3) by (simp_all add: steps_def)
  have v11: "spec_attention (spec_W st1 (weightQ a)) (spec_W st1 (weightK a))
                    (spec_W st1 (weightV a)) 2 steps 0 1 1 =
             exp (6 / sqrt 2) * 3 / (exp (4 / sqrt 2) + exp (6 / sqrt 2))"
    by (simp add: spec_attention_def spec_weights_def spec_scores_def spec_project_def
        spec_W_def steps_def a st1 rng1_def numeral_2_eq_2)
  have "0 < exp (4 / sqrt 2 :: real)" by simp
  then have lt: "exp (6 / sqrt 2) * 3 / (exp (4 / sqrt 2) + exp (6 / sqrt 2)) < (3::real)"
    by (simp add: pos_divide_less_eq add_pos_pos distrib_left)
  have v01: "spec_attention (spec_W st1 (weightQ a)) (spec_W st1 (weightK a))
                    (spec_W st1 (weightV a)) 2 steps 0 0 1 = 3 / 2"
    by (simp add: spec_attention_def spec_weights_def spec_scores_def spec_project_def
        spec_W_def steps_def a st1 rng1_def numeral_2_eq_2)
  show ?thesis
    using i d y sh e11 e01 v11 v01 lt by auto
qed

text \<open>
  Claim C4. For a constructed \<^verbatim>\<open>MultiHeadAttention\<close> with \<open>0 < d_model\<close>, whatever
  its parameters hold, and an input of shape \<open>(batch, seq_len, d_model)\<close>: every one
  of the \<open>n_heads\<close> heads returns a tensor of shape \<open>(batch, seq_len, d_k)\<close>;
  \<^verbatim>\<open>torch.cat\<close> puts them side by side along the last axis in list order, head \<open>n\<close>
  at the columns \<open>n * d_k, \<dots>, n * d_k + d_k - 1\<close>, which gives the shape
  \<open>(batch, seq_len, d_model)\<close>; the one output layer maps \<open>d_model\<close> features to
  \<open>d_model\<close> features, and \<^verbatim>\<open>forward\<close> returns its result, of the shape of the input.
\<close>

theorem MultiHeadAttention_forward_shape:
  assumes "MultiHeadAttention_init dm nh rng st0 = Inr (m, st1)" and "0 < dm"
    and "int (dim2 x) = dm"
  shows "\<exists>outs c y.
    length (heads m) = nat nh \<and> int (dim2 x) = d_k m * nh \<and>
    forward_heads st (heads m) x = Inr outs \<and> length outs = nat nh \<and>
    (\<forall>n<nat nh. Attention_forward st (heads m ! n) x = Inr (outs ! n) \<and>
       dim0 (outs ! n) = dim0 x \<and> dim1 (outs ! n) = dim1 x \<and> int (dim2 (outs ! n)) = d_k m) \<and>
    torch_cat_last outs = Inr c \<and>
    dim0 c = dim0 x \<and> dim1 c = dim1 x \<and> dim2 c = dim2 x \<and>
    (\<forall>n<nat nh. \<forall>j<nat (d_k m). \<forall>b<dim0 x. \<forall>i<dim1 x.
       el c b i (n * nat (d_k m) + j) = el (outs ! n) b i j) \<and>
    in_features (out_lin_layer m) = dim2 x \<and> out_features (out_lin_layer m) = dim2 x \<and>
    Linear_forward st (out_lin_layer m) c = Inr y \<and>
    MultiHeadAttention_forward st m x = Inr y \<and>
    dim0 y = dim0 x \<and> dim1 y = dim1 x \<and> dim2 y = dim2 x"
proof -
  let ?k = "nat (d_k m)"
  note i = assms(1)
  have dx: "nat dm = dim2 x" using assms(3) by auto
  from MultiHeadAttention_init_Inr(1)[OF i] obtain h where
    hs: "heads m = replicate (nat nh) h" and h: "head_shape (nat dm) ?k h" by blast
  have np: "0 < nh" and kp: "0 < d_k m" and prod: "nat nh * ?k = nat dm"
    using MultiHeadAttention_init_heads_positive[OF i assms(2)] by simp_all
  have len: "length (heads m) = nat nh" by (simp add: hs)
  have "\<forall>h'\<in>set (heads m). head_shape (dim2 x) ?k h'" using h dx by (simp add: hs)
  from forward_heads_Inr[OF this, of st] obtain outs where
    fh: "forward_heads st (heads m) x = Inr outs" and lo: "length outs = nat nh" and
    nth: "\<forall>n<nat nh. Attention_forward st (heads m ! n) x = Inr (outs ! n) \<and>
        dim0 (outs ! n) = dim0 x \<and> dim1 (outs ! n) = dim1 x \<and> dim2 (outs ! n) = ?k"
    by (auto simp: len)
  have all: "\<forall>t\<in>set outs. dim0 t = dim0 x \<and> dim1 t = dim1 x \<and> dim2 t = ?k"
    using nth lo by (auto simp: in_set_conv_nth)
  have ne: "outs \<noteq> []" using lo np by auto
  let ?c = "\<lparr>dim0 = dim0 x, dim1 = dim1 x, dim2 = length outs * ?k, el = cat_el outs\<rparr>"
  have cat: "torch_cat_last outs = Inr ?c" by (rule torch_cat_last_Inr[OF ne all])
  have c2: "dim2 ?c = dim2 x" using prod dx lo by simp
  have k_all: "\<forall>t\<in>set outs. dim2 t = ?k" using all by simp
  have el: "\<forall>n<nat nh. \<forall>j<?k. \<forall>b<dim0 x. \<forall>i<dim1 x.
       el ?c b i (n * ?k + j) = el (outs ! n) b i j"
    using cat_el_nth[OF k_all] lo by simp
  have ol: "in_features (out_lin_layer m) = dim2 x" "out_features (out_lin_layer m) = dim2 x"
    using MultiHeadAttention_init_Inr(6,7)[OF i] dx by simp_all
  have "dim2 ?c = in_features (out_lin_layer m)" using c2 ol by simp
  from Linear_forward_Inr[OF this, of st] obtain y where
    y: "Linear_forward st (out_lin_layer m) ?c = Inr y" and
    ys: "dim0 y = dim0 x" "dim1 y = dim1 x" "dim2 y = dim2 x"
    using ol by simp
  have fw: "MultiHeadAttention_forward st m x = Inr y"
    by (simp add: MultiHeadAttention_forward_def fh cat y)
  have dk: "int (dim2 x) = d_k m * nh"
    using MultiHeadAttention_init_Inr(2)[OF i] assms(3) by simp
  have nth': "\<forall>n<nat nh. Attention_forward st (heads m ! n) x = Inr (outs ! n) \<and>
       dim0 (outs ! n) = dim0 x \<and> dim1 (outs ! n) = dim1 x \<and> int (dim2 (outs ! n)) = d_k m"
    using nth kp by simp
  have c_shape: "dim0 ?c = dim0 x" "dim1 ?c = dim1 x" by simp_all
  show ?thesis
    using len dk fh lo nth' cat c_shape c2 el ol y fw ys by blast
qed

theorem MultiHeadAttention_forward_shape_witness:
  "\<exists>m st1 y. MultiHeadAttention_init 512 8 rng0 store0 = Inr (m, st1) \<and> (0::int) < 512 \<and>
     int (dim2 (ones 16 1 512)) = 512 \<and> length (heads m) = 8 \<and>
     MultiHeadAttention_forward st1 m (ones 16 1 512) = Inr y \<and>
     dim0 y = 16 \<and> dim1 y = 1 \<and> dim2 y = 512"
proof -
  obtain m st1 where m: "MultiHeadAttention_init 512 8 rng0 store0 = Inr (m, st1)"
    using MultiHeadAttention_init_512_8[of rng0 store0] by blast
  have p: "(0::int) < 512" by simp
  have d: "int (dim2 (ones 16 1 512)) = 512" by (simp add: ones_def)
  from MultiHeadAttention_forward_shape[OF m p d, of st1]
  obtain y where "length (heads m) = nat 8"
    "MultiHeadAttention_forward st1 m (ones 16 1 512) = Inr y"
    "dim0 y = dim0 (ones 16 1 512)" "dim1 y = dim1 (ones 16 1 512)"
    "dim2 y = dim2 (ones 16 1 512)"
    by blast
  then have "length (heads m) = 8 \<and> MultiHeadAttention_forward st1 m (ones 16 1 512) = Inr y \<and>
     dim0 y = 16 \<and> dim1 y = 1 \<and> dim2 y = 512"
    by (simp add: ones_def)
  with m p d show ?thesis by blast
qed

text \<open>
  Claim C8. For a constructed feed-forward network, in either mode and whatever its
  parameters hold, and an input of shape \<open>(batch, seq_len, d_model)\<close>: both linear
  layers have a bias; the first gives \<open>d_hidden\<close> features and after \<^verbatim>\<open>ReLU\<close> is the
  specification's \<open>hidden = ReLU(input \<cdot> W1 + b1)\<close>; the second gives
  \<open>hidden \<cdot> W2 + b2\<close> with \<open>d_model\<close> features; \<^verbatim>\<open>forward\<close> returns the dropout of
  that, of the shape of the input; and in evaluation mode \<^verbatim>\<open>forward\<close> returns the
  second layer's result itself.
\<close>

theorem FullyConnectedFeedForwardNetwork_forward_computes:
  assumes "FullyConnectedFeedForwardNetwork_init dm dh p rng st0 = Inr (f, st1)"
    and "int (dim2 x) = dm"
  shows "bias (lin1 f) \<noteq> None \<and> bias (lin2 f) \<noteq> None \<and>
    (\<exists>h z y.
       Linear_forward st (lin1 f) x = Inr h \<and>
       dim0 h = dim0 x \<and> dim1 h = dim1 x \<and> int (dim2 h) = dh \<and>
       (\<forall>b<dim0 x. \<forall>i<dim1 x. \<forall>c<dim2 h.
          el (torch_relu h) b i c =
            spec_hidden (spec_W st (lin1 f)) (spec_b st (lin1 f)) x b i c) \<and>
       Linear_forward st (lin2 f) (torch_relu h) = Inr z \<and>
       dim0 z = dim0 x \<and> dim1 z = dim1 x \<and> dim2 z = dim2 x \<and>
       (\<forall>b<dim0 x. \<forall>i<dim1 x. \<forall>c<dim2 x.
          el z b i c =
            spec_ffn_linear (spec_W st (lin1 f)) (spec_b st (lin1 f))
              (spec_W st (lin2 f)) (spec_b st (lin2 f)) (nat dh) x b i c) \<and>
       FullyConnectedFeedForwardNetwork_forward st (f\<lparr>training := tr\<rparr>) keep x = Inr y \<and>
       dim0 y = dim0 x \<and> dim1 y = dim1 x \<and> dim2 y = dim2 x \<and>
       (\<forall>b<dim0 x. \<forall>i<dim1 x. \<forall>c<dim2 x.
          el y b i c = spec_dropout p tr (keep b i c) (el z b i c)) \<and>
       FullyConnectedFeedForwardNetwork_forward st (eval_mode f) keep x = Inr z)"
proof -
  note i = assms(1)
  note s = FullyConnectedFeedForwardNetwork_init_Inr[OF i]
  have dx: "dim2 x = in_features (lin1 f)" using assms(2) s(1,5) by auto
  have io: "out_features (lin1 f) = in_features (lin2 f)" using s(6,7) by simp
  from feed_forward_layers[OF dx io s(9) s(10), of st] obtain h z where
    h: "Linear_forward st (lin1 f) x = Inr h" and
    hs: "dim0 h = dim0 x" "dim1 h = dim1 x" "dim2 h = out_features (lin1 f)" and
    he: "el (torch_relu h) = spec_hidden (spec_W st (lin1 f)) (spec_b st (lin1 f)) x" and
    z: "Linear_forward st (lin2 f) (torch_relu h) = Inr z" and
    zs: "dim0 z = dim0 x" "dim1 z = dim1 x" "dim2 z = out_features (lin2 f)" and
    ze: "el z = spec_ffn_linear (spec_W st (lin1 f)) (spec_b st (lin1 f))
               (spec_W st (lin2 f)) (spec_b st (lin2 f)) (out_features (lin1 f)) x"
    by blast
  have h2: "int (dim2 h) = dh" using hs(3) s(2,6) by simp
  have z2: "dim2 z = dim2 x" using zs(3) s(8) dx s(5) by simp
  have ze': "el z = spec_ffn_linear (spec_W st (lin1 f)) (spec_b st (lin1 f))
               (spec_W st (lin2 f)) (spec_b st (lin2 f)) (nat dh) x"
    using ze s(6) by simp
  let ?y = "torch_dropout p tr keep z"
  have y: "FullyConnectedFeedForwardNetwork_forward st (f\<lparr>training := tr\<rparr>) keep x = Inr ?y"
    by (simp add: FullyConnectedFeedForwardNetwork_forward_def h z s(11))
  have ys: "dim0 ?y = dim0 x" "dim1 ?y = dim1 x" "dim2 ?y = dim2 x"
    using zs(1,2) z2 by (simp_all add: torch_dropout_def)
  have ye: "el ?y b i c = spec_dropout p tr (keep b i c) (el z b i c)" for b i c
    by (simp add: torch_dropout_def spec_dropout_def)
  have ev: "FullyConnectedFeedForwardNetwork_forward st (eval_mode f) keep x = Inr z"
    by (simp add: FullyConnectedFeedForwardNetwork_forward_def eval_mode_def h z
        torch_dropout_def)
  have b: "bias (lin1 f) \<noteq> None" "bias (lin2 f) \<noteq> None" using s(9,10) by simp_all
  show ?thesis
    using b h hs(1,2) h2 he z zs(1,2) z2 ze' y ys ye ev by auto
qed

theorem FullyConnectedFeedForwardNetwork_forward_computes_witness:
  "\<exists>f st1 y z. FullyConnectedFeedForwardNetwork_init 512 2048 (1 / 2) rng0 store0 = Inr (f, st1) \<and>
     int (dim2 (ones 16 1 512)) = 512 \<and>
     FullyConnectedFeedForwardNetwork_forward st1 f keep_all (ones 16 1 512) = Inr y \<and>
     dim0 y = 16 \<and> dim1 y = 1 \<and> dim2 y = 512 \<and>
     FullyConnectedFeedForwardNetwork_forward st1 (eval_mode f) keep_all (ones 16 1 512) = Inr z \<and>
     el y 0 0 0 = el z 0 0 0 / (1 - 1 / 2) \<and>
     el z 0 0 0 = spec_ffn_linear (spec_W st1 (lin1 f)) (spec_b st1 (lin1 f))
              (spec_W st1 (lin2 f)) (spec_b st1 (lin2 f)) 2048 (ones 16 1 512) 0 0 0"
proof -
  obtain f st1 where
    f: "FullyConnectedFeedForwardNetwork_init 512 2048 (1 / 2) rng0 store0 = Inr (f, st1)"
    using FullyConnectedFeedForwardNetwork_init_default by blast
  have d: "int (dim2 (ones 16 1 512)) = 512" by (simp add: ones_def)
  have tr: "f\<lparr>training := True\<rparr> = f"
    using FullyConnectedFeedForwardNetwork_init_Inr(12)[OF f] by simp
  from FullyConnectedFeedForwardNetwork_forward_computes[OF f d, of st1 True keep_all]
  obtain z y where
    y: "FullyConnectedFeedForwardNetwork_forward st1 (f\<lparr>training := True\<rparr>) keep_all (ones 16 1 512) = Inr y"
    and ys: "dim0 y = dim0 (ones 16 1 512)" "dim1 y = dim1 (ones 16 1 512)"
      "dim2 y = dim2 (ones 16 1 512)"
    and ye: "\<forall>b<dim0 (ones 16 1 512). \<forall>i<dim1 (ones 16 1 512). \<forall>c<dim2 (ones 16 1 512).
          el y b i c = spec_dropout (1 / 2) True (keep_all b i c) (el z b i c)"
    and ze: "\<forall>b<dim0 (ones 16 1 512). \<forall>i<dim1 (ones 16 1 512). \<forall>c<dim2 (ones 16 1 512).
          el z b i c =
            spec_ffn_linear (spec_W st1 (lin1 f)) (spec_b st1 (lin1 f))
              (spec_W st1 (lin2 f)) (spec_b st1 (lin2 f)) (nat 2048) (ones 16 1 512) b i c"
    and ev: "FullyConnectedFeedForwardNetwork_forward st1 (eval_mode f) keep_all (ones 16 1 512) = Inr z"
    by blast
  have "el y 0 0 0 = spec_dropout (1 / 2) True (keep_all 0 0 0) (el z 0 0 0)"
    using ye by (simp add: ones_def)
  then have e1: "el y 0 0 0 = el z 0 0 0 / (1 - 1 / 2)"
    by (simp add: spec_dropout_def keep_all_def)
  have e2: "el z 0 0 0 = spec_ffn_linear (spec_W st1 (lin1 f)) (spec_b st1 (lin1 f))
              (spec_W st1 (lin2 f)) (spec_b st1 (lin2 f)) 2048 (ones 16 1 512) 0 0 0"
    using ze by (simp add: ones_def)
  have "dim0 y = 16" "dim1 y = 1" "dim2 y = 512" using ys by (simp_all add: ones_def)
  with f d y tr ev e1 e2 show ?thesis by auto
qed

text \<open>
  Claim C9. A head, a multi-head attention with \<open>0 < d_model\<close> and a feed-forward
  network, each constructed for \<open>d_model\<close>: on an input whose trailing dimension is not
  \<open>d_model\<close>, \<^verbatim>\<open>forward\<close> ends with the tensor library's error for mismatched shapes,
  raised by the first \<^verbatim>\<open>Linear\<close> it applies, and returns no tensor.
\<close>

theorem forward_shape_mismatch:
  "(Attention_init dm dk rng st0 = Inr (a, st1) \<and> int (dim2 x) \<noteq> dm \<longrightarrow>
      Attention_forward st a x = Inl (RuntimeError ShapeMismatch)) \<and>
   (MultiHeadAttention_init dm nh rng st0 = Inr (m, st2) \<and> 0 < dm \<and> int (dim2 x) \<noteq> dm \<longrightarrow>
      MultiHeadAttention_forward st m x = Inl (RuntimeError ShapeMismatch)) \<and>
   (FullyConnectedFeedForwardNetwork_init dm dh p rng st0 = Inr (f, st3) \<and> int (dim2 x) \<noteq> dm \<longrightarrow>
      FullyConnectedFeedForwardNetwork_forward st f keep x = Inl (RuntimeError ShapeMismatch))"
proof (intro conjI impI)
  assume h: "Attention_init dm dk rng st0 = Inr (a, st1) \<and> int (dim2 x) \<noteq> dm"
  then have i: "Attention_init dm dk rng st0 = Inr (a, st1)" by simp
  have "dim2 x \<noteq> nat dm" using h Attention_init_Inr(1)[OF i] by auto
  with Attention_init_Inr(3)[OF i]
  show "Attention_forward st a x = Inl (RuntimeError ShapeMismatch)"
    by (rule Attention_forward_mismatch)
next
  assume h: "MultiHeadAttention_init dm nh rng st0 = Inr (m, st2) \<and> 0 < dm \<and> int (dim2 x) \<noteq> dm"
  then have i: "MultiHeadAttention_init dm nh rng st0 = Inr (m, st2)" and p: "0 < dm" by simp_all
  have ne: "dim2 x \<noteq> nat dm" using h by auto
  from MultiHeadAttention_init_Inr(1)[OF i] obtain hd where
    hd: "heads m = replicate (nat nh) hd" "head_shape (nat dm) (nat (d_k m)) hd" by blast
  have "0 < nh" by (rule MultiHeadAttention_init_heads_positive(1)[OF i p])
  then obtain n where "nat nh = Suc n" by (cases "nat nh") simp_all
  then have "heads m = hd # replicate n hd" using hd(1) by simp
  then show "MultiHeadAttention_forward st m x = Inl (RuntimeError ShapeMismatch)"
    by (simp add: MultiHeadAttention_forward_def Attention_forward_mismatch[OF hd(2) ne])
next
  assume h: "FullyConnectedFeedForwardNetwork_init dm dh p rng st0 = Inr (f, st3) \<and>
     int (dim2 x) \<noteq> dm"
  then have i: "FullyConnectedFeedForwardNetwork_init dm dh p rng st0 = Inr (f, st3)" by simp
  have "dim2 x \<noteq> nat dm"
    using h FullyConnectedFeedForwardNetwork_init_Inr(1)[OF i] by auto
  then have "dim2 x \<noteq> in_features (lin1 f)"
    using FullyConnectedFeedForwardNetwork_init_Inr(5)[OF i] by simp
  then show "FullyConnectedFeedForwardNetwork_forward st f keep x = Inl (RuntimeError ShapeMismatch)"
    by (simp add: FullyConnectedFeedForwardNetwork_forward_def Linear_forward_mismatch)
qed

theorem forward_shape_mismatch_witness:
  "\<exists>a st1 m st2 f st3.
     Attention_init 512 64 rng0 store0 = Inr (a, st1) \<and>
     MultiHeadAttention_init 512 8 rng0 store0 = Inr (m, st2) \<and>
     FullyConnectedFeedForwardNetwork_init 512 2048 (1 / 2) rng0 store0 = Inr (f, st3) \<and>
     (0::int) < 512 \<and> int (dim2 (ones 16 1 256)) \<noteq> 512 \<and>
     Attention_forward st1 a (ones 16 1 256) = Inl (RuntimeError ShapeMismatch) \<and>
     MultiHeadAttention_forward st2 m (ones 16 1 256) = Inl (RuntimeError ShapeMismatch) \<and>
     FullyConnectedFeedForwardNetwork_forward st3 f keep_all (ones 16 1 256) =
       Inl (RuntimeError ShapeMismatch)"
proof -
  obtain a st1 where a: "Attention_init 512 64 rng0 store0 = Inr (a, st1)"
    using Attention_init_small[where dm = 512 and dk = 64 and rng = rng0 and st = store0]
    by auto
  obtain m st2 where m: "MultiHeadAttention_init 512 8 rng0 store0 = Inr (m, st2)"
    using MultiHeadAttention_init_512_8[of rng0 store0] by blast
  obtain f st3 where
    f: "FullyConnectedFeedForwardNetwork_init 512 2048 (1 / 2) rng0 store0 = Inr (f, st3)"
    using FullyConnectedFeedForwardNetwork_init_default by blast
  have d: "int (dim2 (ones 16 1 256)) \<noteq> 512" by (simp add: ones_def)
  have p: "(0::int) < 512" by simp
  note t = forward_shape_mismatch[where dm = 512 and x = "ones 16 1 256" and rng = rng0
      and ?st0.0 = store0]
  have "Attention_forward st1 a (ones 16 1 256) = Inl (RuntimeError ShapeMismatch)"
    using t a d by blast
  moreover have "MultiHeadAttention_forward st2 m (ones 16 1 256) = Inl (RuntimeError ShapeMismatch)"
    using t m p d by blast
  moreover have "FullyConnectedFeedForwardNetwork_forward st3 f keep_all (ones 16 1 256) =
       Inl (RuntimeError ShapeMismatch)"
    using t f d by blast
  ultimately show ?thesis using a m f p d by blast
qed

end
